theory Spec2Isabelle
  imports Main
begin

section \<open>Data model (types/auth.types.ts, types/common.types.ts)\<close>

text \<open>
  The TypeScript interfaces \<^verbatim>\<open>Role\<close> and \<^verbatim>\<open>User\<close>. Field \<^verbatim>\<open>id\<close> of each interface is
  renamed (\<open>rid\<close>, \<open>uid\<close>), as are the timestamps of \<^verbatim>\<open>Role\<close>, because a record field
  is a global constant. The optional field \<^verbatim>\<open>role?: Role\<close> is an option; a permission is
  a string.
\<close>

record Role =
  rid :: int
  rname :: string
  rdescription :: string
  permissions :: "string list"
  rcreatedAt :: string
  rupdatedAt :: string

record User =
  uid :: int
  email :: string
  firstName :: string
  lastName :: string
  roleId :: int
  role :: "Role option"
  isActive :: bool
  emailVerified :: bool
  createdAt :: string
  updatedAt :: string

text \<open>
  The part of \<^verbatim>\<open>AuthContextType\<close> that is data. \<^verbatim>\<open>useContext(AuthContext)\<close> yields
  \<^verbatim>\<open>undefined\<close> outside a provider, which is \<open>None\<close> below.
\<close>

record AuthContextType =
  ctx_user :: "User option"
  ctx_isAuthenticated :: bool
  ctx_isLoading :: bool

datatype js_error = Error string

section \<open>Permission evaluator (contexts/auth.context.tsx)\<close>

text \<open>\<^verbatim>\<open>useAuth\<close> throws when the context is undefined.\<close>

definition useAuth :: "AuthContextType option \<Rightarrow> js_error + AuthContextType" where
  "useAuth context =
     (case context of
        None \<Rightarrow> Inl (Error ''useAuth must be used within an AuthProvider'')
      | Some c \<Rightarrow> Inr c)"

text \<open>
  \<^verbatim>\<open>if (!user || !user.role) return false\<close>: an object is truthy, so the test is for
  \<^verbatim>\<open>null\<close> and \<^verbatim>\<open>undefined\<close>. \<^verbatim>\<open>Array.prototype.includes\<close> on strings is list
  membership, \<^verbatim>\<open>some\<close> is \<open>list_ex\<close> and \<^verbatim>\<open>every\<close> is \<open>list_all\<close>.
\<close>

definition usePermission :: "AuthContextType option \<Rightarrow> string \<Rightarrow> js_error + bool" where
  "usePermission context permission =
     (case useAuth context of
        Inl e \<Rightarrow> Inl e
      | Inr c \<Rightarrow>
          (case ctx_user c of
             None \<Rightarrow> Inr False
           | Some user \<Rightarrow>
               (case role user of
                  None \<Rightarrow> Inr False
                | Some r \<Rightarrow> Inr (permission \<in> set (permissions r)))))"

definition useAnyPermission :: "AuthContextType option \<Rightarrow> string list \<Rightarrow> js_error + bool" where
  "useAnyPermission context perms =
     (case useAuth context of
        Inl e \<Rightarrow> Inl e
      | Inr c \<Rightarrow>
          (case ctx_user c of
             None \<Rightarrow> Inr False
           | Some user \<Rightarrow>
               (case role user of
                  None \<Rightarrow> Inr False
                | Some r \<Rightarrow>
                    Inr (list_ex (\<lambda>permission. permission \<in> set (permissions r)) perms))))"

definition useAllPermissions :: "AuthContextType option \<Rightarrow> string list \<Rightarrow> js_error + bool" where
  "useAllPermissions context perms =
     (case useAuth context of
        Inl e \<Rightarrow> Inl e
      | Inr c \<Rightarrow>
          (case ctx_user c of
             None \<Rightarrow> Inr False
           | Some user \<Rightarrow>
               (case role user of
                  None \<Rightarrow> Inr False
                | Some r \<Rightarrow>
                    Inr (list_all (\<lambda>permission. permission \<in> set (permissions r)) perms))))"

section \<open>Permission guard (components/auth/PermissionGuard.tsx)\<close>

text \<open>
  The props of \<^verbatim>\<open>PermissionGuard\<close>. Optional props are options; \<^verbatim>\<open>requireAll\<close> defaults
  to \<^verbatim>\<open>false\<close> and \<^verbatim>\<open>fallback\<close> to \<^verbatim>\<open>null\<close> (\<open>None\<close> as a rendered node).
\<close>

record 'n PermissionGuardProps =
  permission :: "string option"
  required :: "string list option"
  requireAll :: "bool option"
  fallback :: "'n option"
  children :: 'n

text \<open>JavaScript truthiness of a string that may be undefined.\<close>

definition truthy :: "string option \<Rightarrow> bool" where
  "truthy s = (case s of None \<Rightarrow> False | Some v \<Rightarrow> v \<noteq> [])"

text \<open>The local variable \<^verbatim>\<open>hasPermission\<close> of \<^verbatim>\<open>PermissionGuard\<close>, as it stands before the
  final test. The prop \<^verbatim>\<open>permissions\<close> is the field \<open>required\<close>.\<close>

definition hasPermission ::
  "AuthContextType option \<Rightarrow> 'n PermissionGuardProps \<Rightarrow> js_error + bool" where
  "hasPermission context props =
     (if truthy (permission props) then usePermission context (the (permission props))
      else
        (case required props of
           None \<Rightarrow> Inr False
         | Some perms \<Rightarrow>
             if length perms > 0 then
               (if (case requireAll props of None \<Rightarrow> False | Some b \<Rightarrow> b)
                then useAllPermissions context perms
                else useAnyPermission context perms)
             else Inr False))"

text \<open>What the guard renders: the fallback when the check is false, the children otherwise.\<close>

definition PermissionGuard ::
  "AuthContextType option \<Rightarrow> 'n PermissionGuardProps \<Rightarrow> js_error + 'n option" where
  "PermissionGuard context props =
     (case hasPermission context props of
        Inl e \<Rightarrow> Inl e
      | Inr b \<Rightarrow> if \<not> b then Inr (fallback props) else Inr (Some (children props)))"

section \<open>Token store (lib/api-client.ts)\<close>

text \<open>
  The build-time configuration \<^verbatim>\<open>import.meta.env\<close>: each variable is a string or
  undefined. \<^verbatim>\<open>localStorage\<close> is a map from keys to string values: \<^verbatim>\<open>getItem\<close> of a
  missing key is \<^verbatim>\<open>null\<close> (\<open>None\<close>), \<^verbatim>\<open>setItem\<close> is an update, \<^verbatim>\<open>removeItem\<close> a
  deletion. The quota exception of \<^verbatim>\<open>setItem\<close> is outside the model: the store is
  unbounded.
\<close>

record env =
  VITE_API_BASE_URL :: "string option"
  VITE_JWT_STORAGE_KEY :: "string option"
  VITE_REFRESH_TOKEN_KEY :: "string option"

type_synonym storage = "string \<rightharpoonup> string"

text \<open>\<^verbatim>\<open>a || d\<close> for a string \<^verbatim>\<open>a\<close> that may be undefined and a string \<^verbatim>\<open>d\<close>.\<close>

definition or_else :: "string option \<Rightarrow> string \<Rightarrow> string" where
  "or_else a d = (case a of None \<Rightarrow> d | Some v \<Rightarrow> if v \<noteq> [] then v else d)"

definition jwt_storage_key :: "env \<Rightarrow> string" where
  "jwt_storage_key e = or_else (VITE_JWT_STORAGE_KEY e) ''auth_token''"

definition refresh_token_key :: "env \<Rightarrow> string" where
  "refresh_token_key e = or_else (VITE_REFRESH_TOKEN_KEY e) ''refresh_token''"

definition getToken :: "env \<Rightarrow> storage \<Rightarrow> string option" where
  "getToken e st = st (jwt_storage_key e)"

definition getRefreshToken :: "env \<Rightarrow> storage \<Rightarrow> string option" where
  "getRefreshToken e st = st (refresh_token_key e)"

text \<open>\<^verbatim>\<open>setTokens(accessToken, refreshToken?)\<close>: the refresh token is written only when it
  is truthy, that is given and not the empty string.\<close>

definition setTokens :: "env \<Rightarrow> string \<Rightarrow> string option \<Rightarrow> storage \<Rightarrow> storage" where
  "setTokens e accessToken refreshToken st =
     (let st1 = st(jwt_storage_key e \<mapsto> accessToken)
      in case refreshToken of
           None \<Rightarrow> st1
         | Some r \<Rightarrow> if r \<noteq> [] then st1(refresh_token_key e \<mapsto> r) else st1)"

definition clearTokens :: "env \<Rightarrow> storage \<Rightarrow> storage" where
  "clearTokens e st = (st(jwt_storage_key e := None))(refresh_token_key e := None)"

text \<open>The environment with no variable set, and the one of the README's \<^verbatim>\<open>.env\<close>.\<close>

definition env_unset :: env where
  "env_unset = \<lparr>VITE_API_BASE_URL = None, VITE_JWT_STORAGE_KEY = None,
                 VITE_REFRESH_TOKEN_KEY = None\<rparr>"

definition env_readme :: env where
  "env_readme = \<lparr>VITE_API_BASE_URL = Some ''http://localhost:3000/api'',
                  VITE_JWT_STORAGE_KEY = Some ''auth_token'',
                  VITE_REFRESH_TOKEN_KEY = Some ''refresh_token''\<rparr>"

section \<open>HTTP client with refresh interceptor (lib/api-client.ts)\<close>

text \<open>
  A request configuration. The field \<open>retry\<close> is the mark \<^verbatim>\<open>_retry\<close> that the response
  interceptor sets on \<^verbatim>\<open>error.config\<close> (unset is \<open>False\<close>); \<^verbatim>\<open>headers\<close> may be
  undefined, which the code tests; \<open>req_method\<close> is the field \<^verbatim>\<open>method\<close>.
\<close>

record LoginRequest =
  login_email :: string
  login_password :: string

datatype request_data = NoData | LoginData LoginRequest

record request =
  url :: string
  req_method :: string
  headers :: "(string \<rightharpoonup> string) option"
  req_data :: request_data
  retry :: bool

text \<open>
  A fulfilled response carries typed data (\<^verbatim>\<open>AxiosResponse<T>\<close>). The data of a failed
  response is \<^verbatim>\<open>any\<close>: the code reads \<^verbatim>\<open>message\<close>, \<^verbatim>\<open>code\<close> and \<^verbatim>\<open>details\<close> from it
  with optional chaining, so each may be missing, as may the data and the response.
\<close>

record 'a AxiosResponse =
  resp_status :: int
  resp_data :: 'a

record error_data =
  data_message :: "string option"
  data_code :: "string option"
  data_details :: "string option"

record error_response =
  err_status :: int
  err_data :: "error_data option"

text \<open>The interface \<^verbatim>\<open>ApiError\<close> of types/common.types.ts.\<close>

record ApiError =
  message :: string
  status :: int
  code :: "string option"
  details :: "string option"

record RefreshTokenResponse =
  accessToken :: string
  refreshToken :: "string option"

text \<open>
  What the transport gives for one request: a fulfilled response, or an \<^verbatim>\<open>AxiosError\<close>
  with its \<^verbatim>\<open>message\<close> and, when the server answered, its \<^verbatim>\<open>response\<close>.
\<close>

datatype 'a outcome =
  Fulfilled "'a AxiosResponse"
| Failed string "error_response option"

text \<open>
  The backend is a parameter: any function from its own state and a request to an outcome
  and a new state. \<open>adapter\<close> answers the requests of \<^verbatim>\<open>apiClient\<close>, \<open>refresh_endpoint\<close>
  the \<^verbatim>\<open>axios.post\<close> of the interceptor, given the URL and the refresh token posted.
\<close>

record ('s, 'a) backend =
  adapter :: "'s \<Rightarrow> request \<Rightarrow> 'a outcome \<times> 's"
  refresh_endpoint :: "'s \<Rightarrow> string \<Rightarrow> string \<Rightarrow> RefreshTokenResponse outcome \<times> 's"

text \<open>
  What a promise is rejected with: a normalized \<^verbatim>\<open>ApiError\<close>, the raw \<^verbatim>\<open>AxiosError\<close> of
  the refresh call, or a JavaScript \<^verbatim>\<open>Error\<close>.
\<close>

datatype rejection =
  Api ApiError
| Raw string "error_response option"
| Js js_error

datatype toast = ToastSuccess string | ToastError string

text \<open>
  The browser and the network around the client. \<open>issued\<close> records each request that
  \<^verbatim>\<open>apiClient\<close> hands to the transport and \<open>refresh_posts\<close> each call of the refresh
  endpoint (URL and refresh token), oldest first; \<open>console_errors\<close> and \<open>toasts\<close> record
  \<^verbatim>\<open>console.error\<close> and \<^verbatim>\<open>toast\<close> calls.
\<close>

record 's world =
  localStorage :: storage
  location_href :: string
  server :: 's
  issued :: "request list"
  refresh_posts :: "(string \<times> string) list"
  console_errors :: "rejection list"
  toasts :: "toast list"

text \<open>The request interceptor: \<^verbatim>\<open>if (token && config.headers)\<close> set the bearer header.\<close>

definition request_interceptor :: "env \<Rightarrow> storage \<Rightarrow> request \<Rightarrow> request" where
  "request_interceptor e st config =
     (case getToken e st of
        None \<Rightarrow> config
      | Some token \<Rightarrow>
          if token \<noteq> [] then
            (case headers config of
               None \<Rightarrow> config
             | Some h \<Rightarrow> config\<lparr>headers := Some (h(''Authorization'' \<mapsto> ''Bearer '' @ token))\<rparr>)
          else config)"

text \<open>The transformation of an error into \<^verbatim>\<open>ApiError\<close>, the last part of the response
  interceptor. \<^verbatim>\<open>error.response?.status || 500\<close> is 500 also for a status 0.\<close>

definition response_data_field ::
  "error_response option \<Rightarrow> (error_data \<Rightarrow> string option) \<Rightarrow> string option" where
  "response_data_field resp f =
     (case resp of
        None \<Rightarrow> None
      | Some r \<Rightarrow> (case err_data r of None \<Rightarrow> None | Some d \<Rightarrow> f d))"

definition toApiError :: "string \<Rightarrow> error_response option \<Rightarrow> ApiError" where
  "toApiError error_message resp =
     \<lparr>message =
        or_else (Some (or_else (response_data_field resp data_message) error_message))
          ''An error occurred'',
      status = (case resp of
                  None \<Rightarrow> 500
                | Some r \<Rightarrow> if err_status r \<noteq> 0 then err_status r else 500),
      code = response_data_field resp data_code,
      details = response_data_field resp data_details\<rparr>"

text \<open>\<^verbatim>\<open>`${import.meta.env.VITE_API_BASE_URL}/auth/refresh-token`\<close>: an undefined variable
  prints as \<^verbatim>\<open>undefined\<close> in a template literal.\<close>

definition refresh_url :: "env \<Rightarrow> string" where
  "refresh_url e =
     (case VITE_API_BASE_URL e of None \<Rightarrow> ''undefined'' | Some u \<Rightarrow> u) @ ''/auth/refresh-token''"

text \<open>The \<^verbatim>\<open>catch (refreshError)\<close> block: clear the tokens, redirect, reject.\<close>

definition refresh_failed ::
  "env \<Rightarrow> 's world \<Rightarrow> rejection \<Rightarrow> (rejection + 'a AxiosResponse) \<times> 's world" where
  "refresh_failed e w refreshError =
     (Inl refreshError,
      w\<lparr>localStorage := clearTokens e (localStorage w), location_href := ''/login''\<rparr>)"

definition is_401 :: "error_response option \<Rightarrow> bool" where
  "is_401 resp = (case resp of None \<Rightarrow> False | Some r \<Rightarrow> err_status r = 401)"

definition with_bearer :: "request \<Rightarrow> string \<Rightarrow> request" where
  "with_bearer originalRequest token =
     (case headers originalRequest of
        None \<Rightarrow> originalRequest
      | Some h \<Rightarrow>
          originalRequest\<lparr>headers := Some (h(''Authorization'' \<mapsto> ''Bearer '' @ token))\<rparr>)"

text \<open>
  One call \<^verbatim>\<open>apiClient(config)\<close>, run to completion: the request interceptor, the
  transport, and the response interceptor, which on a 401 of an unmarked request marks it,
  refreshes the token and calls \<^verbatim>\<open>apiClient(originalRequest)\<close> again. The rejection of
  that inner call is returned as it is: \<^verbatim>\<open>return apiClient(originalRequest)\<close> inside
  \<^verbatim>\<open>try\<close> is not awaited, so the \<^verbatim>\<open>catch\<close> block does not see it.
\<close>

function apiClient ::
  "env \<Rightarrow> ('s, 'a) backend \<Rightarrow> 's world \<Rightarrow> request \<Rightarrow> (rejection + 'a AxiosResponse) \<times> 's world"
  where
  "apiClient e b w config =
     (let config1 = request_interceptor e (localStorage w) config;
          sent = adapter b (server w) config1;
          w1 = w\<lparr>server := snd sent, issued := issued w @ [config1]\<rparr>
      in case fst sent of
           Fulfilled response \<Rightarrow> (Inr response, w1)
         | Failed error_message resp \<Rightarrow>
             if is_401 resp \<and> \<not> retry config1 then
               (let originalRequest = config1\<lparr>retry := True\<rparr>
                in case getRefreshToken e (localStorage w1) of
                     None \<Rightarrow> refresh_failed e w1 (Js (Error ''No refresh token available''))
                   | Some rt \<Rightarrow>
                       if rt = [] then
                         refresh_failed e w1 (Js (Error ''No refresh token available''))
                       else
                         (let posted = refresh_endpoint b (server w1) (refresh_url e) rt;
                              w2 = w1\<lparr>server := snd posted,
                                      refresh_posts := refresh_posts w1 @ [(refresh_url e, rt)]\<rparr>
                          in case fst posted of
                               Failed m r \<Rightarrow> refresh_failed e w2 (Raw m r)
                             | Fulfilled refreshResponse \<Rightarrow>
                                 (let tokens = resp_data refreshResponse;
                                      w3 = w2\<lparr>localStorage :=
                                              setTokens e (accessToken tokens) (refreshToken tokens)
                                                (localStorage w2)\<rparr>
                                  in apiClient e b w3
                                       (with_bearer originalRequest (accessToken tokens)))))
             else (Inl (Api (toApiError error_message resp)), w1))"
  by pat_completeness auto

termination apiClient
  by (relation "measure (\<lambda>(e, b, w, config). if retry config then 0 else 1)")
    (auto simp: request_interceptor_def with_bearer_def split: option.splits)

declare apiClient.simps [simp del]

section \<open>Authentication service (services/auth.service.ts)\<close>

record AuthResponse =
  auth_user :: User
  auth_accessToken :: string
  auth_refreshToken :: string
  auth_message :: string

text \<open>\<^verbatim>\<open>apiClient.get(url)\<close> and \<^verbatim>\<open>apiClient.post(url, data)\<close> build a configuration with
  the default header of \<^verbatim>\<open>axios.create\<close> and no retry mark.\<close>

definition api_request :: "string \<Rightarrow> string \<Rightarrow> request_data \<Rightarrow> request" where
  "api_request m u d =
     \<lparr>url = u, req_method = m, headers = Some [''Content-Type'' \<mapsto> ''application/json''],
      req_data = d, retry = False\<rparr>"

text \<open>\<^verbatim>\<open>const response = await apiClient...; return response.data\<close>.\<close>

definition response_data ::
  "(rejection + 'a AxiosResponse) \<times> 's world \<Rightarrow> (rejection + 'a) \<times> 's world" where
  "response_data r =
     (case fst r of
        Inl error \<Rightarrow> (Inl error, snd r)
      | Inr response \<Rightarrow> (Inr (resp_data response), snd r))"

definition AuthService_login ::
  "env \<Rightarrow> ('s, AuthResponse) backend \<Rightarrow> 's world \<Rightarrow> LoginRequest
     \<Rightarrow> (rejection + AuthResponse) \<times> 's world" where
  "AuthService_login e b w credentials =
     response_data (apiClient e b w (api_request ''post'' ''/auth/login'' (LoginData credentials)))"

definition AuthService_logout ::
  "env \<Rightarrow> ('s, 'a) backend \<Rightarrow> 's world \<Rightarrow> (rejection + 'a) \<times> 's world" where
  "AuthService_logout e b w =
     response_data (apiClient e b w (api_request ''post'' ''/auth/logout'' NoData))"

definition AuthService_getProfile ::
  "env \<Rightarrow> ('s, User) backend \<Rightarrow> 's world \<Rightarrow> (rejection + User) \<times> 's world" where
  "AuthService_getProfile e b w =
     response_data (apiClient e b w (api_request ''get'' ''/auth/profile'' NoData))"

section \<open>Session context (contexts/auth.context.tsx)\<close>

text \<open>
  The React state of \<^verbatim>\<open>AuthProvider\<close>. Each operation below is one asynchronous function
  run to completion on the provider's state and the world; it returns the value its promise
  settles with (\<open>Inl\<close> a rejection) and both states.
\<close>

record AuthProvider =
  user :: "User option"
  isLoading :: bool

text \<open>\<^verbatim>\<open>const isAuthenticated = !!user && !!getToken()\<close>.\<close>

definition isAuthenticated :: "env \<Rightarrow> AuthProvider \<Rightarrow> 's world \<Rightarrow> bool" where
  "isAuthenticated e a w = (user a \<noteq> None \<and> truthy (getToken e (localStorage w)))"

text \<open>\<^verbatim>\<open>error.message\<close> of a caught rejection.\<close>

fun rejection_message :: "rejection \<Rightarrow> string" where
  "rejection_message (Api x) = message x"
| "rejection_message (Raw m r) = m"
| "rejection_message (Js (Error m)) = m"

definition initializeAuth ::
  "env \<Rightarrow> ('s, User) backend \<Rightarrow> AuthProvider \<Rightarrow> 's world \<Rightarrow> AuthProvider \<times> 's world" where
  "initializeAuth e b a w =
     (if truthy (getToken e (localStorage w)) then
        (let fetched = AuthService_getProfile e b w; w1 = snd fetched
         in case fst fetched of
              Inr userData \<Rightarrow> (a\<lparr>user := Some userData, isLoading := False\<rparr>, w1)
            | Inl error \<Rightarrow>
                (a\<lparr>user := None, isLoading := False\<rparr>,
                 w1\<lparr>localStorage := clearTokens e (localStorage w1)\<rparr>))
      else (a\<lparr>isLoading := False\<rparr>, w))"

definition login ::
  "env \<Rightarrow> ('s, AuthResponse) backend \<Rightarrow> AuthProvider \<Rightarrow> 's world \<Rightarrow> LoginRequest
     \<Rightarrow> (rejection + unit) \<times> AuthProvider \<times> 's world" where
  "login e b a w credentials =
     (let a1 = a\<lparr>isLoading := True\<rparr>;
          called = AuthService_login e b w credentials;
          w1 = snd called
      in case fst called of
           Inr response \<Rightarrow>
             (Inr (),
              a1\<lparr>user := Some (auth_user response), isLoading := False\<rparr>,
              w1\<lparr>localStorage :=
                    setTokens e (auth_accessToken response) (Some (auth_refreshToken response))
                      (localStorage w1),
                  toasts := toasts w1 @
                    [ToastSuccess (or_else (Some (auth_message response)) ''Login successful'')]\<rparr>)
         | Inl error \<Rightarrow>
             (Inl error,
              a1\<lparr>isLoading := False\<rparr>,
              w1\<lparr>toasts := toasts w1 @
                    [ToastError (or_else (Some (rejection_message error)) ''Login failed'')]\<rparr>))"

definition logout ::
  "env \<Rightarrow> ('s, 'a) backend \<Rightarrow> AuthProvider \<Rightarrow> 's world
     \<Rightarrow> (rejection + unit) \<times> AuthProvider \<times> 's world" where
  "logout e b a w =
     (let a1 = a\<lparr>isLoading := True\<rparr>;
          called = AuthService_logout e b w;
          w1 = snd called;
          w2 = (case fst called of
                  Inr response \<Rightarrow> w1
                | Inl error \<Rightarrow> w1\<lparr>console_errors := console_errors w1 @ [error]\<rparr>)
      in (Inr (),
          a1\<lparr>user := None, isLoading := False\<rparr>,
          w2\<lparr>localStorage := clearTokens e (localStorage w2),
              toasts := toasts w2 @ [ToastSuccess ''Logged out successfully'']\<rparr>))"

section \<open>Concrete backends and worlds for the examples\<close>

definition unauthorized :: "'a outcome" where
  "unauthorized =
     Failed ''Request failed with status code 401'' (Some \<lparr>err_status = 401, err_data = None\<rparr>)"

definition network_error :: "'a outcome" where
  "network_error = Failed ''Network Error'' None"

text \<open>A backend that answers every request with 401 and refuses every refresh.\<close>

definition backend_locked :: "(unit, 'a) backend" where
  "backend_locked =
     \<lparr>adapter = (\<lambda>s r. (unauthorized, s)),
      refresh_endpoint = (\<lambda>s u t. (unauthorized, s))\<rparr>"

text \<open>A backend that answers every request with 401 but grants every refresh.\<close>

definition backend_stale :: "(unit, 'a) backend" where
  "backend_stale =
     \<lparr>adapter = (\<lambda>s r. (unauthorized, s)),
      refresh_endpoint = (\<lambda>s u t.
        (Fulfilled \<lparr>resp_status = 200,
                    resp_data = \<lparr>accessToken = ''new'', refreshToken = None\<rparr>\<rparr>, s))\<rparr>"

text \<open>A backend that is unreachable.\<close>

definition backend_down :: "(unit, 'a) backend" where
  "backend_down =
     \<lparr>adapter = (\<lambda>s r. (network_error, s)),
      refresh_endpoint = (\<lambda>s u t. (network_error, s))\<rparr>"

text \<open>A backend that answers every request with the given data.\<close>

definition backend_ok :: "'a \<Rightarrow> (unit, 'a) backend" where
  "backend_ok d =
     \<lparr>adapter = (\<lambda>s r. (Fulfilled \<lparr>resp_status = 200, resp_data = d\<rparr>, s)),
      refresh_endpoint = (\<lambda>s u t. (unauthorized, s))\<rparr>"

definition world_of :: "storage \<Rightarrow> unit world" where
  "world_of st =
     \<lparr>localStorage = st, location_href = ''/dashboard'', server = (), issued = [],
      refresh_posts = [], console_errors = [], toasts = []\<rparr>"

definition provider_of :: "User option \<Rightarrow> AuthProvider" where
  "provider_of u = \<lparr>user = u, isLoading = True\<rparr>"

section \<open>Concrete users for the examples\<close>

definition role_empty :: Role where
  "role_empty = \<lparr>rid = 2, rname = ''guest'', rdescription = ''no permission'',
                  permissions = [], rcreatedAt = ''2024-01-01'', rupdatedAt = ''2024-01-01''\<rparr>"

definition role_editor :: Role where
  "role_editor = \<lparr>rid = 1, rname = ''editor'', rdescription = ''edits roles'',
                   permissions = [''role:read'', ''role:write''],
                   rcreatedAt = ''2024-01-01'', rupdatedAt = ''2024-01-01''\<rparr>"

definition user_of :: "Role option \<Rightarrow> User" where
  "user_of r = \<lparr>uid = 7, email = ''a@x.com'', firstName = ''A'', lastName = ''X'',
                roleId = 1, role = r, isActive = True, emailVerified = True,
                createdAt = ''2024-01-01'', updatedAt = ''2024-01-01''\<rparr>"

definition ctx_of :: "User option \<Rightarrow> AuthContextType" where
  "ctx_of u = \<lparr>ctx_user = u, ctx_isAuthenticated = (u \<noteq> None), ctx_isLoading = False\<rparr>"

text \<open>A user is without permissions when there is no user, no role, or a role whose
  permission list is empty.\<close>

definition role_absent :: "AuthContextType \<Rightarrow> bool" where
  "role_absent c = (case ctx_user c of None \<Rightarrow> True | Some u \<Rightarrow> role u = None)"

definition permissions_empty :: "AuthContextType \<Rightarrow> bool" where
  "permissions_empty c =
     (case ctx_user c of
        None \<Rightarrow> False
      | Some u \<Rightarrow> (case role u of None \<Rightarrow> False | Some r \<Rightarrow> permissions r = []))"

section \<open>Observations of one call of the client\<close>

text \<open>
  Names for what a theorem about \<^verbatim>\<open>apiClient(config)\<close> in a world \<open>w\<close> speaks of: the
  request as the request interceptor dispatches it, the outcome the transport gives for
  it, the world once the transport has answered, the outcome of the refresh call made with
  refresh token \<open>rt\<close>, and the world after that call.
\<close>

definition dispatched :: "env \<Rightarrow> 's world \<Rightarrow> request \<Rightarrow> request" where
  "dispatched e w config = request_interceptor e (localStorage w) config"

definition first_outcome :: "env \<Rightarrow> ('s, 'a) backend \<Rightarrow> 's world \<Rightarrow> request \<Rightarrow> 'a outcome" where
  "first_outcome e b w config = fst (adapter b (server w) (dispatched e w config))"

definition after_transport :: "env \<Rightarrow> ('s, 'a) backend \<Rightarrow> 's world \<Rightarrow> request \<Rightarrow> 's world" where
  "after_transport e b w config =
     w\<lparr>server := snd (adapter b (server w) (dispatched e w config)),
       issued := issued w @ [dispatched e w config]\<rparr>"

definition refresh_outcome ::
  "env \<Rightarrow> ('s, 'a) backend \<Rightarrow> 's world \<Rightarrow> request \<Rightarrow> string \<Rightarrow> RefreshTokenResponse outcome" where
  "refresh_outcome e b w config rt =
     fst (refresh_endpoint b (server (after_transport e b w config)) (refresh_url e) rt)"

definition after_refresh ::
  "env \<Rightarrow> ('s, 'a) backend \<Rightarrow> 's world \<Rightarrow> request \<Rightarrow> string \<Rightarrow> 's world" where
  "after_refresh e b w config rt =
     (after_transport e b w config)
       \<lparr>server := snd (refresh_endpoint b (server (after_transport e b w config)) (refresh_url e) rt),
        refresh_posts := refresh_posts w @ [(refresh_url e, rt)]\<rparr>"

text \<open>The request that the interceptor re-issues after a refresh that returned \<open>rr\<close>.\<close>

definition retried_request ::
  "env \<Rightarrow> 's world \<Rightarrow> request \<Rightarrow> RefreshTokenResponse \<Rightarrow> request" where
  "retried_request e w config tokens =
     request_interceptor e
       (setTokens e (accessToken tokens) (refreshToken tokens) (localStorage w))
       (with_bearer ((dispatched e w config)\<lparr>retry := True\<rparr>) (accessToken tokens))"

text \<open>A request and a token store for the examples.\<close>

definition request_users :: request where
  "request_users = api_request ''get'' ''/users'' NoData"

definition store_session :: storage where
  "store_session = [''auth_token'' \<mapsto> ''old'', ''refresh_token'' \<mapsto> ''r1'']"

text \<open>Credentials for the examples.\<close>

definition credentials_valid :: LoginRequest where
  "credentials_valid = \<lparr>login_email = ''a@x.com'', login_password = ''Secret1!''\<rparr>"

text \<open>An environment that configures the same storage key for both tokens.\<close>

definition env_shared_key :: env where
  "env_shared_key = \<lparr>VITE_API_BASE_URL = None, VITE_JWT_STORAGE_KEY = Some ''token'',
                      VITE_REFRESH_TOKEN_KEY = Some ''token''\<rparr>"

text \<open>A login response with the given access and refresh token.\<close>

definition auth_tokens :: "string \<Rightarrow> string \<Rightarrow> AuthResponse" where
  "auth_tokens a r =
     \<lparr>auth_user = user_of (Some role_editor), auth_accessToken = a,
      auth_refreshToken = r, auth_message = ''Welcome''\<rparr>"

text \<open>
  A backend whose state says whether a refresh has been granted: it answers 401 until
  then and the given data afterwards, and grants every refresh with the given access token.
\<close>

definition backend_renewing :: "string \<Rightarrow> 'a \<Rightarrow> (bool, 'a) backend" where
  "backend_renewing tok d =
     \<lparr>adapter = (\<lambda>s r.
        (if s then Fulfilled \<lparr>resp_status = 200, resp_data = d\<rparr> else unauthorized, s)),
      refresh_endpoint = (\<lambda>s u t.
        (Fulfilled \<lparr>resp_status = 200,
                    resp_data = \<lparr>accessToken = tok, refreshToken = None\<rparr>\<rparr>, True))\<rparr>"

definition world_at :: "'s \<Rightarrow> storage \<Rightarrow> 's world" where
  "world_at s st =
     \<lparr>localStorage = st, location_href = ''/dashboard'', server = s, issued = [],
      refresh_posts = [], console_errors = [], toasts = []\<rparr>"

section \<open>Permission evaluator: theorems\<close>

lemma list_ex_False [simp]: "list_ex (\<lambda>p. False) R = False"
  by (induction R) simp_all

lemma list_all_False: "R \<noteq> [] \<Longrightarrow> list_all (\<lambda>p. False) R = False"
  by (cases R) simp_all

lemma list_all_imp_list_ex: "R \<noteq> [] \<Longrightarrow> list_all P R \<Longrightarrow> list_ex P R"
  by (cases R) simp_all

text \<open>
  Claim C1, as stated, fails: a user whose role has an empty permission list passes the
  ALL check on the empty required list, since \<^verbatim>\<open>[].every(f)\<close> is true.
\<close>

theorem C1_counterexample:
  "permissions_empty (ctx_of (Some (user_of (Some role_empty)))) \<and>
   useAllPermissions (Some (ctx_of (Some (user_of (Some role_empty))))) [] = Inr True"
  by (simp add: permissions_empty_def ctx_of_def user_of_def role_empty_def
      useAllPermissions_def useAuth_def)

text \<open>
  Claim C1, amended. For a user with no role, or with a role whose permission list is
  empty: the single check is false for every permission, the ANY check is false for every
  required list, the ALL check is false for every required list when the role is absent and
  for every non-empty required list when the permission list is empty, and the guard
  computes false and renders its fallback for all props (it calls the ALL check only with a
  non-empty list).
\<close>

theorem C1_fails_closed:
  assumes "role_absent c \<or> permissions_empty c"
  shows "usePermission (Some c) p = Inr False
       \<and> useAnyPermission (Some c) R = Inr False
       \<and> (role_absent c \<or> R \<noteq> [] \<longrightarrow> useAllPermissions (Some c) R = Inr False)
       \<and> hasPermission (Some c) props = Inr False
       \<and> PermissionGuard (Some c) props = Inr (fallback props)"
proof -
  have single: "usePermission (Some c) q = Inr False" for q
    using assms
    by (auto simp: usePermission_def useAuth_def role_absent_def permissions_empty_def
        split: option.splits)
  have any: "useAnyPermission (Some c) Q = Inr False" for Q
    using assms
    by (auto simp: useAnyPermission_def useAuth_def role_absent_def permissions_empty_def
        split: option.splits)
  have all_absent: "role_absent c \<Longrightarrow> useAllPermissions (Some c) Q = Inr False" for Q
    by (auto simp: useAllPermissions_def useAuth_def role_absent_def split: option.splits)
  have all_nonempty: "Q \<noteq> [] \<Longrightarrow> useAllPermissions (Some c) Q = Inr False" for Q
    using assms
    by (auto simp: useAllPermissions_def useAuth_def role_absent_def permissions_empty_def
        list_all_False split: option.splits)
  have has: "hasPermission (Some c) props = Inr False"
    by (auto simp: hasPermission_def single any all_nonempty split: option.splits)
  have guard: "PermissionGuard (Some c) props = Inr (fallback props)"
    by (simp add: PermissionGuard_def has)
  from single any all_absent all_nonempty has guard show ?thesis by blast
qed

theorem C1_fails_closed_witness:
  "usePermission (Some (ctx_of (Some (user_of (Some role_empty))))) ''role:write'' = Inr False
   \<and> useAnyPermission (Some (ctx_of (Some (user_of (Some role_empty))))) [''role:write'']
       = Inr False
   \<and> useAllPermissions (Some (ctx_of (Some (user_of (Some role_empty))))) [''role:write'']
       = Inr False
   \<and> PermissionGuard (Some (ctx_of (Some (user_of (Some role_empty)))))
        \<lparr>permission = None, required = Some [], requireAll = Some True,
         fallback = Some ''denied'', children = ''page''\<rparr> = Inr (Some ''denied'')"
proof -
  have h: "role_absent (ctx_of (Some (user_of (Some role_empty))))
         \<or> permissions_empty (ctx_of (Some (user_of (Some role_empty))))"
    by (simp add: permissions_empty_def ctx_of_def user_of_def role_empty_def)
  show ?thesis
    using C1_fails_closed [OF h, of "''role:write''" "[''role:write'']"
        "\<lparr>permission = None, required = Some [], requireAll = Some True,
          fallback = Some ''denied'', children = ''page''\<rparr>"]
    by simp
qed

text \<open>
  Claim C2. For every context and every non-empty required list, if the ALL check returns
  true then the ANY check returns true.
\<close>

theorem C2_all_implies_any:
  assumes "R \<noteq> []" and "useAllPermissions context R = Inr True"
  shows "useAnyPermission context R = Inr True"
  using assms
  by (auto simp: useAllPermissions_def useAnyPermission_def list_all_imp_list_ex
      split: sum.splits option.splits)

theorem C2_all_implies_any_witness:
  "[''role:read'', ''role:write''] \<noteq> []
   \<and> useAllPermissions (Some (ctx_of (Some (user_of (Some role_editor)))))
        [''role:read'', ''role:write''] = Inr True
   \<and> useAnyPermission (Some (ctx_of (Some (user_of (Some role_editor)))))
        [''role:read'', ''role:write''] = Inr True"
proof -
  have ne: "[''role:read'', ''role:write''] \<noteq> []" by simp
  have h: "useAllPermissions (Some (ctx_of (Some (user_of (Some role_editor)))))
        [''role:read'', ''role:write''] = Inr True"
    by (simp add: useAllPermissions_def useAuth_def ctx_of_def user_of_def role_editor_def)
  show ?thesis using ne h C2_all_implies_any [OF ne h] by simp
qed

section \<open>Token store: theorems\<close>

lemma keys_env_unset: "jwt_storage_key env_unset \<noteq> refresh_token_key env_unset"
  by (simp add: env_unset_def jwt_storage_key_def refresh_token_key_def or_else_def)

lemmas store_defs =
  getToken_def getRefreshToken_def setTokens_def clearTokens_def env_unset_def
  env_shared_key_def jwt_storage_key_def refresh_token_key_def or_else_def

text \<open>
  Claim C6, as stated, fails twice. For the empty refresh token, \<^verbatim>\<open>setTokens(a, "")\<close>
  does not write the refresh key (\<^verbatim>\<open>if (refreshToken)\<close>), so \<^verbatim>\<open>getRefreshToken()\<close> does
  not return the empty string afterwards. And when both storage keys are configured to the
  same string, the refresh token is written over the access token, so \<^verbatim>\<open>getToken()\<close>
  returns \<open>b\<close>, not \<open>a\<close>.
\<close>

theorem C6_counterexample:
  "getRefreshToken env_unset (setTokens env_unset ''a'' (Some '''') Map.empty) \<noteq> Some ''''
   \<and> getToken env_shared_key (setTokens env_shared_key ''a'' (Some ''b'') Map.empty)
       \<noteq> Some ''a''"
  by (simp add: store_defs)

text \<open>
  Claim C6, amended. After \<^verbatim>\<open>clearTokens()\<close> the store returns \<^verbatim>\<open>null\<close> for both tokens,
  always. After \<^verbatim>\<open>setTokens(a, b)\<close>, \<^verbatim>\<open>getRefreshToken()\<close> returns \<open>b\<close> for every
  non-empty \<open>b\<close>, and \<^verbatim>\<open>getToken()\<close> returns \<open>a\<close> when the two storage keys differ
  (as the default keys do) or \<open>b\<close> is empty.
\<close>

theorem C6_round_trip:
  "getToken e (clearTokens e st) = None
   \<and> getRefreshToken e (clearTokens e st) = None
   \<and> (b \<noteq> [] \<longrightarrow> getRefreshToken e (setTokens e a (Some b) st) = Some b)
   \<and> (jwt_storage_key e \<noteq> refresh_token_key e \<or> b = [] \<longrightarrow>
        getToken e (setTokens e a (Some b) st) = Some a)"
  by (auto simp: getToken_def getRefreshToken_def setTokens_def clearTokens_def Let_def)

theorem C6_round_trip_witness:
  "''ref'' \<noteq> [] \<and> jwt_storage_key env_unset \<noteq> refresh_token_key env_unset
   \<and> getToken env_unset (setTokens env_unset ''acc'' (Some ''ref'') Map.empty) = Some ''acc''
   \<and> getRefreshToken env_unset (setTokens env_unset ''acc'' (Some ''ref'') Map.empty) = Some ''ref''
   \<and> getRefreshToken env_shared_key (setTokens env_shared_key ''acc'' (Some ''ref'') Map.empty)
       = Some ''ref''
   \<and> getToken env_shared_key (setTokens env_shared_key ''acc'' (Some '''') Map.empty)
       = Some ''acc''
   \<and> getToken env_shared_key (clearTokens env_shared_key [''token'' \<mapsto> ''t'']) = None
   \<and> getRefreshToken env_shared_key (clearTokens env_shared_key [''token'' \<mapsto> ''t'']) = None"
  using C6_round_trip [of env_unset Map.empty "''ref''" "''acc''"]
    C6_round_trip [of env_shared_key "[''token'' \<mapsto> ''t'']" "''ref''" "''acc''"]
    C6_round_trip [of env_shared_key Map.empty "''''" "''acc''"]
    C6_round_trip [of env_shared_key Map.empty "''ref''" "''acc''"]
    keys_env_unset
  by (simp add: store_defs)

text \<open>
  Claim C10, as stated, fails when both storage keys are configured to the same string:
  the refresh token read before the call is \<^verbatim>\<open>old\<close>, and after \<^verbatim>\<open>setTokens("acc")\<close> it
  is \<^verbatim>\<open>acc\<close>, because the access-token key is the refresh-token key.
\<close>

theorem C10_counterexample:
  "getRefreshToken env_shared_key [''token'' \<mapsto> ''old''] = Some ''old''
   \<and> getRefreshToken env_shared_key
        (setTokens env_shared_key ''acc'' None [''token'' \<mapsto> ''old'']) = Some ''acc''"
  by (simp add: store_defs)

text \<open>
  Claim C10, amended. \<^verbatim>\<open>setTokens(a)\<close> with the refresh token omitted or empty is
  exactly the update of the access-token key to \<open>a\<close>, and the store returns \<open>a\<close> as access
  token; when the two storage keys differ, the store returns the same refresh token as
  before the call.
\<close>

theorem C10_setTokens_frame:
  assumes "r = None \<or> r = Some []"
  shows "setTokens e a r st = st(jwt_storage_key e \<mapsto> a)
       \<and> getToken e (setTokens e a r st) = Some a
       \<and> (jwt_storage_key e \<noteq> refresh_token_key e \<longrightarrow>
            getRefreshToken e (setTokens e a r st) = getRefreshToken e st)"
  using assms by (auto simp: getToken_def getRefreshToken_def setTokens_def)

theorem C10_setTokens_frame_witness:
  "jwt_storage_key env_unset \<noteq> refresh_token_key env_unset
   \<and> getToken env_unset (setTokens env_unset ''acc'' None [''refresh_token'' \<mapsto> ''old''])
     = Some ''acc''
   \<and> getRefreshToken env_unset (setTokens env_unset ''acc'' None [''refresh_token'' \<mapsto> ''old''])
     = getRefreshToken env_unset [''refresh_token'' \<mapsto> ''old'']
   \<and> getRefreshToken env_unset [''refresh_token'' \<mapsto> ''old''] = Some ''old''
   \<and> getRefreshToken env_unset (setTokens env_unset ''acc'' (Some '''') Map.empty)
     = getRefreshToken env_unset Map.empty
   \<and> getToken env_shared_key (setTokens env_shared_key ''acc'' None [''token'' \<mapsto> ''old''])
     = Some ''acc''"
proof -
  have n: "(None :: string option) = None \<or> None = Some []" by simp
  have s: "Some '''' = None \<or> Some '''' = Some []" by simp
  have old: "getRefreshToken env_unset [''refresh_token'' \<mapsto> ''old''] = Some ''old''"
    by (simp add: store_defs)
  from C10_setTokens_frame [OF n, of env_unset "''acc''" "[''refresh_token'' \<mapsto> ''old'']"]
    C10_setTokens_frame [OF s, of env_unset "''acc''" Map.empty]
    C10_setTokens_frame [OF n, of env_shared_key "''acc''" "[''token'' \<mapsto> ''old'']"]
    keys_env_unset old
  show ?thesis by (simp add: store_defs)
qed

section \<open>HTTP client: the five paths of a call\<close>

text \<open>
  Each lemma below gives the result of \<^verbatim>\<open>apiClient\<close> on one path through the
  interceptors: fulfilled, normalized error, no refresh token, refresh rejected, and
  refreshed (where the result is that of the re-issued, marked request).
\<close>

lemma retry_request_interceptor [simp]:
  "retry (request_interceptor e st config) = retry config"
  by (simp add: request_interceptor_def split: option.splits)

lemma retry_with_bearer [simp]: "retry (with_bearer r t) = retry r"
  by (simp add: with_bearer_def split: option.splits)

lemma retry_dispatched [simp]: "retry (dispatched e w config) = retry config"
  by (simp add: dispatched_def)

lemma apiClient_fulfilled:
  assumes "first_outcome e b w config = Fulfilled response"
  shows "apiClient e b w config = (Inr response, after_transport e b w config)"
  using assms
  by (subst apiClient.simps)
     (simp add: Let_def first_outcome_def after_transport_def dispatched_def)

lemma apiClient_normalized:
  assumes "first_outcome e b w config = Failed m resp"
      and "\<not> (is_401 resp \<and> \<not> retry config)"
  shows "apiClient e b w config = (Inl (Api (toApiError m resp)), after_transport e b w config)"
  using assms
  by (subst apiClient.simps)
     (auto simp: Let_def first_outcome_def after_transport_def dispatched_def)

lemma apiClient_no_refresh_token:
  assumes "first_outcome e b w config = Failed m resp"
      and "is_401 resp" and "\<not> retry config"
      and "\<not> truthy (getRefreshToken e (localStorage w))"
  shows "apiClient e b w config =
           refresh_failed e (after_transport e b w config) (Js (Error ''No refresh token available''))"
  using assms
  by (subst apiClient.simps)
     (auto simp: Let_def first_outcome_def after_transport_def dispatched_def truthy_def
        split: option.splits)

lemma apiClient_refresh_rejected:
  assumes "first_outcome e b w config = Failed m resp"
      and "is_401 resp" and "\<not> retry config"
      and "getRefreshToken e (localStorage w) = Some rt" and "rt \<noteq> []"
      and "refresh_outcome e b w config rt = Failed rm rr"
  shows "apiClient e b w config = refresh_failed e (after_refresh e b w config rt) (Raw rm rr)"
  using assms
  by (subst apiClient.simps)
     (auto simp: Let_def first_outcome_def after_transport_def dispatched_def
        refresh_outcome_def after_refresh_def)

lemma apiClient_refreshed:
  assumes "first_outcome e b w config = Failed m resp"
      and "is_401 resp" and "\<not> retry config"
      and "getRefreshToken e (localStorage w) = Some rt" and "rt \<noteq> []"
      and "refresh_outcome e b w config rt = Fulfilled rr"
  shows "apiClient e b w config =
           apiClient e b
             ((after_refresh e b w config rt)
                \<lparr>localStorage := setTokens e (accessToken (resp_data rr))
                   (refreshToken (resp_data rr)) (localStorage w)\<rparr>)
             (with_bearer ((dispatched e w config)\<lparr>retry := True\<rparr>) (accessToken (resp_data rr)))"
  using assms
  by (subst apiClient.simps)
     (auto simp: Let_def first_outcome_def after_transport_def dispatched_def
        refresh_outcome_def after_refresh_def)

lemma worlds_simps [simp]:
  "issued (after_transport e b w config) = issued w @ [dispatched e w config]"
  "refresh_posts (after_transport e b w config) = refresh_posts w"
  "localStorage (after_transport e b w config) = localStorage w"
  "location_href (after_transport e b w config) = location_href w"
  "issued (after_refresh e b w config rt) = issued w @ [dispatched e w config]"
  "refresh_posts (after_refresh e b w config rt) = refresh_posts w @ [(refresh_url e, rt)]"
  "localStorage (after_refresh e b w config rt) = localStorage w"
  "location_href (after_refresh e b w config rt) = location_href w"
  by (simp_all add: after_transport_def after_refresh_def)

lemma refresh_failed_simps [simp]:
  "fst (refresh_failed e w r) = Inl r"
  "issued (snd (refresh_failed e w r)) = issued w"
  "refresh_posts (snd (refresh_failed e w r)) = refresh_posts w"
  "localStorage (snd (refresh_failed e w r)) = clearTokens e (localStorage w)"
  "location_href (snd (refresh_failed e w r)) = ''/login''"
  by (simp_all add: refresh_failed_def)

lemma apiClient_marked:
  assumes "retry config"
  shows "refresh_posts (snd (apiClient e b w config)) = refresh_posts w"
    and "issued (snd (apiClient e b w config)) = issued w @ [dispatched e w config]"
    and "localStorage (snd (apiClient e b w config)) = localStorage w"
    and "location_href (snd (apiClient e b w config)) = location_href w"
    and "(\<exists>response. fst (apiClient e b w config) = Inr response)
       \<or> (\<exists>m resp. first_outcome e b w config = Failed m resp
            \<and> fst (apiClient e b w config) = Inl (Api (toApiError m resp)))"
proof -
  show "refresh_posts (snd (apiClient e b w config)) = refresh_posts w"
    using assms by (cases "first_outcome e b w config")
      (simp_all add: apiClient_fulfilled apiClient_normalized)
  show "issued (snd (apiClient e b w config)) = issued w @ [dispatched e w config]"
    using assms by (cases "first_outcome e b w config")
      (simp_all add: apiClient_fulfilled apiClient_normalized)
  show "localStorage (snd (apiClient e b w config)) = localStorage w"
    using assms by (cases "first_outcome e b w config")
      (simp_all add: apiClient_fulfilled apiClient_normalized)
  show "location_href (snd (apiClient e b w config)) = location_href w"
    using assms by (cases "first_outcome e b w config")
      (simp_all add: apiClient_fulfilled apiClient_normalized)
  show "(\<exists>response. fst (apiClient e b w config) = Inr response)
       \<or> (\<exists>m resp. first_outcome e b w config = Failed m resp
            \<and> fst (apiClient e b w config) = Inl (Api (toApiError m resp)))"
    using assms by (cases "first_outcome e b w config")
      (simp_all add: apiClient_fulfilled apiClient_normalized)
qed




lemma apiClient_refreshed_effects:
  assumes "first_outcome e b w config = Failed m resp"
      and "is_401 resp" and "\<not> retry config"
      and "getRefreshToken e (localStorage w) = Some rt" and "rt \<noteq> []"
      and "refresh_outcome e b w config rt = Fulfilled rr"
  shows "refresh_posts (snd (apiClient e b w config)) = refresh_posts w @ [(refresh_url e, rt)]"
    and "issued (snd (apiClient e b w config)) =
           issued w @ [dispatched e w config, retried_request e w config (resp_data rr)]"
    and "localStorage (snd (apiClient e b w config)) =
           setTokens e (accessToken (resp_data rr)) (refreshToken (resp_data rr)) (localStorage w)"
    and "location_href (snd (apiClient e b w config)) = location_href w"
  unfolding apiClient_refreshed [OF assms]
  by (simp_all add: apiClient_marked retried_request_def dispatched_def)


lemmas example_defs =
  first_outcome_def dispatched_def after_transport_def refresh_outcome_def after_refresh_def
  backend_locked_def backend_stale_def backend_down_def backend_ok_def unauthorized_def
  network_error_def is_401_def world_of_def request_users_def store_session_def api_request_def
  request_interceptor_def getToken_def getRefreshToken_def env_unset_def jwt_storage_key_def
  refresh_token_key_def or_else_def refresh_url_def truthy_def

section \<open>HTTP client: theorems\<close>




text \<open>
  Claim C4. When an unmarked request is answered with 401 and the Token Store holds no
  refresh token (none, or the empty string), the call is rejected with the error
  \<^verbatim>\<open>No refresh token available\<close>, no refresh call is made, the request is not
  re-issued, the location becomes \<^verbatim>\<open>/login\<close>, and the tokens are cleared.
\<close>

theorem C4_no_refresh_token:
  assumes "\<not> retry config" and "first_outcome e b w config = Failed m resp" and "is_401 resp"
      and "\<not> truthy (getRefreshToken e (localStorage w))"
  shows "fst (apiClient e b w config) = Inl (Js (Error ''No refresh token available''))
       \<and> refresh_posts (snd (apiClient e b w config)) = refresh_posts w
       \<and> issued (snd (apiClient e b w config)) = issued w @ [dispatched e w config]
       \<and> location_href (snd (apiClient e b w config)) = ''/login''
       \<and> localStorage (snd (apiClient e b w config)) = clearTokens e (localStorage w)"
  by (simp add: apiClient_no_refresh_token [OF assms(2,3,1,4)])

theorem C4_no_refresh_token_witness:
  "fst (apiClient env_unset (backend_stale :: (unit, unit) backend)
          (world_of [''auth_token'' \<mapsto> ''old'']) request_users)
     = Inl (Js (Error ''No refresh token available''))
   \<and> refresh_posts (snd (apiClient env_unset (backend_stale :: (unit, unit) backend)
          (world_of [''auth_token'' \<mapsto> ''old'']) request_users)) = []
   \<and> location_href (snd (apiClient env_unset (backend_stale :: (unit, unit) backend)
          (world_of [''auth_token'' \<mapsto> ''old'']) request_users)) = ''/login''"
proof -
  have 1: "\<not> retry request_users" by (simp add: example_defs)
  have 2: "first_outcome env_unset (backend_stale :: (unit, unit) backend)
             (world_of [''auth_token'' \<mapsto> ''old'']) request_users
           = Failed ''Request failed with status code 401''
               (Some \<lparr>err_status = 401, err_data = None\<rparr>)"
    by (simp add: example_defs)
  have 3: "is_401 (Some \<lparr>err_status = 401, err_data = None\<rparr>)" by (simp add: is_401_def)
  have 4: "\<not> truthy (getRefreshToken env_unset
             (localStorage (world_of [''auth_token'' \<mapsto> ''old''])))"
    by (simp add: example_defs)
  from C4_no_refresh_token [OF 1 2 3 4] show ?thesis by (simp add: world_of_def)
qed

text \<open>
  Claim C5. A failed request that does not enter the refresh path (its response is not a
  401, or the request is marked) is rejected with the \<^verbatim>\<open>ApiError\<close> built from it, never
  with the transport error: the message is that of the response data, else the transport
  message, else \<^verbatim>\<open>An error occurred\<close>; the status is that of the response, 500 when
  there is no response (or the status is 0); code and details are those of the response
  data, when there are any.
\<close>

theorem C5_error_normalization:
  assumes "first_outcome e b w config = Failed m resp"
      and "\<not> (is_401 resp \<and> \<not> retry config)"
  shows "fst (apiClient e b w config) = Inl (Api (toApiError m resp))
       \<and> fst (apiClient e b w config) \<noteq> Inl (Raw m resp)
       \<and> message (toApiError m resp) =
           (if truthy (response_data_field resp data_message)
            then the (response_data_field resp data_message)
            else if m \<noteq> [] then m else ''An error occurred'')
       \<and> status (toApiError m resp) =
           (case resp of None \<Rightarrow> 500
            | Some r \<Rightarrow> if err_status r = 0 then 500 else err_status r)
       \<and> code (toApiError m resp) = response_data_field resp data_code
       \<and> details (toApiError m resp) = response_data_field resp data_details
       \<and> (resp = None \<longrightarrow>
            toApiError m resp =
              \<lparr>message = (if m \<noteq> [] then m else ''An error occurred''), status = 500,
               code = None, details = None\<rparr>)"
  by (auto simp: apiClient_normalized [OF assms] toApiError_def or_else_def truthy_def
      response_data_field_def split: option.splits)

theorem C5_error_normalization_witness:
  "fst (apiClient env_unset (backend_down :: (unit, unit) backend) (world_of store_session)
          request_users)
     = Inl (Api \<lparr>message = ''Network Error'', status = 500, code = None, details = None\<rparr>)"
proof -
  have 1: "first_outcome env_unset (backend_down :: (unit, unit) backend)
             (world_of store_session) request_users = Failed ''Network Error'' None"
    by (simp add: example_defs)
  have 2: "\<not> (is_401 None \<and> \<not> retry request_users)" by (simp add: is_401_def)
  from C5_error_normalization [OF 1 2] show ?thesis by simp
qed

section \<open>HTTP client: case analysis and invariants of a call\<close>

lemma apiClient_cases [case_names fulfilled normalized no_token rejected refreshed]:
  obtains
    (fulfilled) response where "first_outcome e b w config = Fulfilled response"
  | (normalized) m resp where "first_outcome e b w config = Failed m resp"
      and "\<not> (is_401 resp \<and> \<not> retry config)"
  | (no_token) m resp where "first_outcome e b w config = Failed m resp"
      and "is_401 resp" and "\<not> retry config"
      and "\<not> truthy (getRefreshToken e (localStorage w))"
  | (rejected) m resp rt rm rr where "first_outcome e b w config = Failed m resp"
      and "is_401 resp" and "\<not> retry config"
      and "getRefreshToken e (localStorage w) = Some rt" and "rt \<noteq> []"
      and "refresh_outcome e b w config rt = Failed rm rr"
  | (refreshed) m resp rt rr where "first_outcome e b w config = Failed m resp"
      and "is_401 resp" and "\<not> retry config"
      and "getRefreshToken e (localStorage w) = Some rt" and "rt \<noteq> []"
      and "refresh_outcome e b w config rt = Fulfilled rr"
proof (cases "first_outcome e b w config")
  case (Fulfilled response)
  then show ?thesis by (rule fulfilled)
next
  case (Failed m resp)
  show ?thesis
  proof (cases "is_401 resp \<and> \<not> retry config")
    case False
    with Failed show ?thesis by (rule normalized)
  next
    case True
    show ?thesis
    proof (cases "truthy (getRefreshToken e (localStorage w))")
      case False
      with Failed True show ?thesis by (auto intro: no_token)
    next
      case tr: True
      then obtain rt where rt: "getRefreshToken e (localStorage w) = Some rt" "rt \<noteq> []"
        by (auto simp: truthy_def split: option.splits)
      show ?thesis
      proof (cases "refresh_outcome e b w config rt")
        case (Fulfilled rr)
        with Failed True rt show ?thesis by (auto intro: refreshed)
      next
        case rej: (Failed rm rr)
        with Failed True rt show ?thesis by (auto intro: rejected)
      qed
    qed
  qed
qed

lemma worlds_logs [simp]:
  "console_errors (after_transport e b w config) = console_errors w"
  "toasts (after_transport e b w config) = toasts w"
  "console_errors (after_refresh e b w config rt) = console_errors w"
  "toasts (after_refresh e b w config rt) = toasts w"
  "console_errors (snd (refresh_failed e w' r)) = console_errors w'"
  "toasts (snd (refresh_failed e w' r)) = toasts w'"
  by (simp_all add: after_transport_def after_refresh_def refresh_failed_def)

lemma apiClient_marked_logs:
  assumes "retry config"
  shows "console_errors (snd (apiClient e b w config)) = console_errors w"
    and "toasts (snd (apiClient e b w config)) = toasts w"
  using assms
  by (cases "first_outcome e b w config";
      simp add: apiClient_fulfilled apiClient_normalized)+

lemma apiClient_logs:
  "console_errors (snd (apiClient e b w config)) = console_errors w
   \<and> toasts (snd (apiClient e b w config)) = toasts w"
proof (cases rule: apiClient_cases [of e b w config])
  case (fulfilled response)
  then show ?thesis by (simp add: apiClient_fulfilled)
next
  case (normalized m resp)
  then show ?thesis by (simp add: apiClient_normalized)
next
  case (no_token m resp)
  then show ?thesis by (simp add: apiClient_no_refresh_token)
next
  case (rejected m resp rt rm rr)
  then show ?thesis by (simp add: apiClient_refresh_rejected)
next
  case (refreshed m resp rt rr)
  then show ?thesis by (simp add: apiClient_refreshed apiClient_marked_logs)
qed

lemma clearTokens_absent:
  "getToken e st = None \<Longrightarrow> getRefreshToken e st = None \<Longrightarrow> clearTokens e st = st"
  by (auto simp: getToken_def getRefreshToken_def clearTokens_def)

lemma apiClient_store_anonymous:
  assumes "getToken e (localStorage w) = None" and "getRefreshToken e (localStorage w) = None"
  shows "localStorage (snd (apiClient e b w config)) = localStorage w"
proof (cases rule: apiClient_cases [of e b w config])
  case (fulfilled response)
  then show ?thesis by (simp add: apiClient_fulfilled)
next
  case (normalized m resp)
  then show ?thesis by (simp add: apiClient_normalized)
next
  case (no_token m resp)
  then show ?thesis by (simp add: apiClient_no_refresh_token clearTokens_absent assms)
next
  case (rejected m resp rt rm rr)
  with assms show ?thesis by simp
next
  case (refreshed m resp rt rr)
  with assms show ?thesis by simp
qed

lemma truthy_getToken_setTokens:
  "a \<noteq> [] \<Longrightarrow> truthy (getToken e (setTokens e a r st))"
  by (auto simp: truthy_def getToken_def setTokens_def Let_def split: option.splits)

lemma apiClient_store_not_401:
  assumes "\<forall>m resp. first_outcome e b w config = Failed m resp \<longrightarrow> \<not> is_401 resp"
  shows "localStorage (snd (apiClient e b w config)) = localStorage w"
proof (cases rule: apiClient_cases [of e b w config])
  case (fulfilled response)
  then show ?thesis by (simp add: apiClient_fulfilled)
next
  case (normalized m resp)
  then show ?thesis by (simp add: apiClient_normalized)
next
  case (no_token m resp)
  with assms show ?thesis by blast
next
  case (rejected m resp rt rm rr)
  with assms show ?thesis by blast
next
  case (refreshed m resp rt rr)
  with assms show ?thesis by blast
qed

lemma truthy_getToken_setTokens_iff:
  "truthy (getToken e (setTokens e a (Some r) st))
     = (a \<noteq> [] \<or> (jwt_storage_key e = refresh_token_key e \<and> r \<noteq> []))"
  by (auto simp: truthy_def getToken_def setTokens_def Let_def)

lemma apiClient_token_kept_here:
  assumes "truthy (getToken e (localStorage w))"
      and "fst (apiClient e b w config) = Inr response"
      and "\<forall>m resp rt rr.
             first_outcome e b w config = Failed m resp \<and> is_401 resp
             \<and> getRefreshToken e (localStorage w) = Some rt
             \<and> refresh_outcome e b w config rt = Fulfilled rr
             \<longrightarrow> accessToken (resp_data rr) \<noteq> []"
  shows "truthy (getToken e (localStorage (snd (apiClient e b w config))))"
proof (cases rule: apiClient_cases [of e b w config])
  case (fulfilled response)
  with assms show ?thesis by (simp add: apiClient_fulfilled)
next
  case (normalized m resp)
  with assms show ?thesis by (simp add: apiClient_normalized)
next
  case (no_token m resp)
  with assms show ?thesis by (simp add: apiClient_no_refresh_token)
next
  case (rejected m resp rt rm rr)
  with assms show ?thesis by (simp add: apiClient_refresh_rejected)
next
  case (refreshed m resp rt rr)
  with assms(3) have "accessToken (resp_data rr) \<noteq> []" by blast
  with refreshed show ?thesis
    by (simp add: apiClient_refreshed_effects truthy_getToken_setTokens)
qed

lemma response_data_simps [simp]:
  "snd (response_data r) = snd r"
  "(fst (response_data r) = Inl error) = (fst r = Inl error)"
  "(fst (response_data r) = Inr d) = (\<exists>response. fst r = Inr response \<and> resp_data response = d)"
  by (auto simp: response_data_def split: sum.splits)

text \<open>The client on the example backends.\<close>

lemma apiClient_backend_ok:
  "apiClient e (backend_ok d) w config =
     (Inr \<lparr>resp_status = 200, resp_data = d\<rparr>, after_transport e (backend_ok d) w config)"
  by (rule apiClient_fulfilled) (simp add: first_outcome_def backend_ok_def)

lemma apiClient_backend_down:
  "apiClient e (backend_down :: (unit, 'a) backend) w config =
     (Inl (Api (toApiError ''Network Error'' None)),
      after_transport e (backend_down :: (unit, 'a) backend) w config)"
  by (rule apiClient_normalized)
     (simp_all add: first_outcome_def backend_down_def network_error_def is_401_def)

lemma apiClient_backend_locked_anonymous:
  assumes "\<not> retry config" and "\<not> truthy (getRefreshToken e (localStorage w))"
  shows "apiClient e (backend_locked :: (unit, 'a) backend) w config =
     refresh_failed e (after_transport e (backend_locked :: (unit, 'a) backend) w config)
       (Js (Error ''No refresh token available''))"
  by (rule apiClient_no_refresh_token
        [where m = "''Request failed with status code 401''"
           and resp = "Some \<lparr>err_status = 401, err_data = None\<rparr>"])
     (simp_all add: assms first_outcome_def backend_locked_def unauthorized_def is_401_def)

lemma apiClient_backend_locked_session:
  assumes "\<not> retry config" and "getRefreshToken e (localStorage w) = Some rt" and "rt \<noteq> []"
  shows "apiClient e (backend_locked :: (unit, 'a) backend) w config =
     refresh_failed e (after_refresh e (backend_locked :: (unit, 'a) backend) w config rt)
       (Raw ''Request failed with status code 401''
          (Some \<lparr>err_status = 401, err_data = None\<rparr>))"
  by (rule apiClient_refresh_rejected
        [where m = "''Request failed with status code 401''"
           and resp = "Some \<lparr>err_status = 401, err_data = None\<rparr>"])
     (simp_all add: assms first_outcome_def refresh_outcome_def backend_locked_def
        unauthorized_def is_401_def)

lemma apiClient_backend_renewing:
  assumes "\<not> retry config" and "getRefreshToken e (localStorage w) = Some rt" and "rt \<noteq> []"
      and "\<not> server w"
  shows "fst (apiClient e (backend_renewing tok d) w config)
           = Inr \<lparr>resp_status = 200, resp_data = d\<rparr>"
    and "localStorage (snd (apiClient e (backend_renewing tok d) w config))
           = setTokens e tok None (localStorage w)"
proof -
  have first: "first_outcome e (backend_renewing tok d) w config
      = Failed ''Request failed with status code 401''
          (Some \<lparr>err_status = 401, err_data = None\<rparr>)"
    using assms(4) by (simp add: first_outcome_def backend_renewing_def unauthorized_def)
  have unauth: "is_401 (Some \<lparr>err_status = 401, err_data = None\<rparr>)"
    by (simp add: is_401_def)
  have granted: "refresh_outcome e (backend_renewing tok d) w config rt
      = Fulfilled \<lparr>resp_status = 200,
                   resp_data = \<lparr>accessToken = tok, refreshToken = None\<rparr>\<rparr>"
    by (simp add: refresh_outcome_def backend_renewing_def)
  note again = apiClient_refreshed [OF first unauth assms(1,2,3) granted]
  have served: "first_outcome e (backend_renewing tok d)
        ((after_refresh e (backend_renewing tok d) w config rt)
           \<lparr>localStorage := setTokens e tok None (localStorage w)\<rparr>)
        (with_bearer ((dispatched e w config)\<lparr>retry := True\<rparr>) tok)
      = Fulfilled \<lparr>resp_status = 200, resp_data = d\<rparr>"
    by (simp add: first_outcome_def after_refresh_def backend_renewing_def)
  show "fst (apiClient e (backend_renewing tok d) w config)
           = Inr \<lparr>resp_status = 200, resp_data = d\<rparr>"
    using again apiClient_fulfilled [OF served] by simp
  show "localStorage (snd (apiClient e (backend_renewing tok d) w config))
           = setTokens e tok None (localStorage w)"
    using again apiClient_fulfilled [OF served] by simp
qed

lemma login_fulfilled:
  assumes "fst (AuthService_login e b w credentials) = Inr response"
  shows "fst (login e b a w credentials) = Inr ()"
    and "user (fst (snd (login e b a w credentials))) = Some (auth_user response)"
    and "\<not> isLoading (fst (snd (login e b a w credentials)))"
    and "localStorage (snd (snd (login e b a w credentials))) =
           setTokens e (auth_accessToken response) (Some (auth_refreshToken response))
             (localStorage (snd (AuthService_login e b w credentials)))"
  using assms by (simp_all add: login_def Let_def)

lemma login_rejected:
  assumes "fst (AuthService_login e b w credentials) = Inl error"
  shows "fst (login e b a w credentials) = Inl error"
    and "user (fst (snd (login e b a w credentials))) = user a"
    and "\<not> isLoading (fst (snd (login e b a w credentials)))"
    and "localStorage (snd (snd (login e b a w credentials))) =
           localStorage (snd (AuthService_login e b w credentials))"
  using assms by (simp_all add: login_def Let_def)

lemma AuthService_login_backend_ok:
  "fst (AuthService_login e (backend_ok r) w credentials) = Inr r"
  by (simp add: AuthService_login_def apiClient_backend_ok)

lemma AuthService_login_backend_locked_session:
  assumes "getRefreshToken e (localStorage w) = Some rt" and "rt \<noteq> []"
  shows "fst (AuthService_login e backend_locked w credentials)
           = Inl (Raw ''Request failed with status code 401''
                   (Some \<lparr>err_status = 401, err_data = None\<rparr>))"
    and "localStorage (snd (AuthService_login e backend_locked w credentials))
           = clearTokens e (localStorage w)"
  using assms
  by (simp_all add: AuthService_login_def
      apiClient_backend_locked_session [where rt = rt] api_request_def)

lemma AuthService_login_backend_ok_store:
  "localStorage (snd (AuthService_login e (backend_ok r) w credentials)) = localStorage w"
  by (simp add: AuthService_login_def apiClient_backend_ok)

lemma initializeAuth_fulfilled:
  assumes "truthy (getToken e (localStorage w))"
      and "fst (AuthService_getProfile e b w) = Inr u"
  shows "user (fst (initializeAuth e b a w)) = Some u"
    and "snd (initializeAuth e b a w) = snd (AuthService_getProfile e b w)"
  using assms by (simp_all add: initializeAuth_def Let_def)

lemma AuthService_getProfile_backend_renewing:
  assumes "getRefreshToken e (localStorage w) = Some rt" and "rt \<noteq> []" and "\<not> server w"
  shows "fst (AuthService_getProfile e (backend_renewing tok u) w) = Inr u"
    and "localStorage (snd (AuthService_getProfile e (backend_renewing tok u) w))
           = setTokens e tok None (localStorage w)"
  using assms
  by (simp_all add: AuthService_getProfile_def
      apiClient_backend_renewing [where rt = rt] api_request_def)

lemma store_session_tokens:
  "getToken env_unset store_session = Some ''old''"
  "getRefreshToken env_unset store_session = Some ''r1''"
  by (simp_all add: store_session_def store_defs)

section \<open>Session context: theorems\<close>

text \<open>
  Claim C7. For every provider state, world and backend, \<^verbatim>\<open>logout()\<close> resolves (it never
  rejects), and afterwards the Token Store holds neither token, the user is \<^verbatim>\<open>null\<close>,
  \<^verbatim>\<open>isAuthenticated\<close> and \<^verbatim>\<open>isLoading\<close> are false; when the backend call fails, its error
  is logged with \<^verbatim>\<open>console.error\<close>, and nothing is logged when it succeeds.
\<close>

theorem C7_logout_postcondition:
  "fst (logout e b a w) = Inr ()
   \<and> getToken e (localStorage (snd (snd (logout e b a w)))) = None
   \<and> getRefreshToken e (localStorage (snd (snd (logout e b a w)))) = None
   \<and> user (fst (snd (logout e b a w))) = None
   \<and> \<not> isLoading (fst (snd (logout e b a w)))
   \<and> \<not> isAuthenticated e (fst (snd (logout e b a w))) (snd (snd (logout e b a w)))
   \<and> (\<forall>error. fst (AuthService_logout e b w) = Inl error \<longrightarrow>
         console_errors (snd (snd (logout e b a w))) = console_errors w @ [error])
   \<and> (\<forall>d. fst (AuthService_logout e b w) = Inr d \<longrightarrow>
         console_errors (snd (snd (logout e b a w))) = console_errors w)"
proof -
  have logs: "console_errors (snd (AuthService_logout e b w)) = console_errors w"
    by (simp add: AuthService_logout_def apiClient_logs)
  show ?thesis
    by (auto simp: logout_def Let_def isAuthenticated_def getToken_def getRefreshToken_def
        clearTokens_def logs split: sum.splits)
qed

theorem C7_logout_postcondition_witness:
  "fst (AuthService_logout env_unset (backend_down :: (unit, unit) backend)
          (world_of store_session))
     = Inl (Api \<lparr>message = ''Network Error'', status = 500, code = None, details = None\<rparr>)
   \<and> getToken env_unset (localStorage (snd (snd (logout env_unset
         (backend_down :: (unit, unit) backend) (provider_of (Some (user_of (Some role_editor))))
         (world_of store_session))))) = None
   \<and> console_errors (snd (snd (logout env_unset
         (backend_down :: (unit, unit) backend) (provider_of (Some (user_of (Some role_editor))))
         (world_of store_session))))
     = [Api \<lparr>message = ''Network Error'', status = 500, code = None, details = None\<rparr>]"
proof -
  have h: "fst (AuthService_logout env_unset (backend_down :: (unit, unit) backend)
          (world_of store_session))
     = Inl (Api \<lparr>message = ''Network Error'', status = 500, code = None, details = None\<rparr>)"
    by (simp add: AuthService_logout_def apiClient_backend_down toApiError_def or_else_def
        response_data_field_def)
  from h C7_logout_postcondition [of env_unset "backend_down :: (unit, unit) backend"
      "provider_of (Some (user_of (Some role_editor)))" "world_of store_session"]
  show ?thesis by (simp add: world_of_def)
qed


text \<open>
  Claim C8, as stated, fails in four ways. A fulfilled login whose access token is the
  empty string leaves the session unauthenticated (\<^verbatim>\<open>isAuthenticated\<close> reads
  \<^verbatim>\<open>getToken()\<close> again). A returned refresh token that is empty is not stored. With both
  storage keys configured to the same string the stored access token is the refresh token.
  And a login rejected with 401 while the store holds stale tokens goes through the refresh
  path of the interceptor, whose failure clears the store: the user is still \<^verbatim>\<open>null\<close>,
  but the Token Store has been written.
\<close>

theorem C8_counterexample:
  "fst (login env_unset (backend_ok (auth_tokens '''' ''ref'')) (provider_of None)
          (world_of Map.empty) credentials_valid) = Inr ()
   \<and> \<not> isAuthenticated env_unset
        (fst (snd (login env_unset (backend_ok (auth_tokens '''' ''ref'')) (provider_of None)
           (world_of Map.empty) credentials_valid)))
        (snd (snd (login env_unset (backend_ok (auth_tokens '''' ''ref'')) (provider_of None)
           (world_of Map.empty) credentials_valid)))
   \<and> getRefreshToken env_unset
        (localStorage (snd (snd (login env_unset (backend_ok (auth_tokens ''acc'' ''''))
           (provider_of None) (world_of Map.empty) credentials_valid)))) \<noteq> Some ''''
   \<and> getToken env_shared_key
        (localStorage (snd (snd (login env_shared_key (backend_ok (auth_tokens ''acc'' ''ref''))
           (provider_of None) (world_of Map.empty) credentials_valid)))) \<noteq> Some ''acc''
   \<and> user (provider_of None) = None
   \<and> getToken env_unset (localStorage (world_of store_session)) = Some ''old''
   \<and> fst (login env_unset backend_locked (provider_of None) (world_of store_session)
          credentials_valid)
       = Inl (Raw ''Request failed with status code 401''
               (Some \<lparr>err_status = 401, err_data = None\<rparr>))
   \<and> getToken env_unset
        (localStorage (snd (snd (login env_unset backend_locked (provider_of None)
           (world_of store_session) credentials_valid)))) = None"
proof -
  have session: "getRefreshToken env_unset (localStorage (world_of store_session)) = Some ''r1''"
    "''r1'' \<noteq> []"
    by (simp_all add: world_of_def store_session_tokens)
  note blank = login_fulfilled [OF AuthService_login_backend_ok
      [of env_unset "auth_tokens [] ''ref''" "world_of Map.empty" credentials_valid],
      where a = "provider_of None"]
  note norefresh = login_fulfilled(4) [OF AuthService_login_backend_ok
      [of env_unset "auth_tokens ''acc'' []" "world_of Map.empty" credentials_valid],
      where a = "provider_of None"]
  note shared = login_fulfilled(4) [OF AuthService_login_backend_ok
      [of env_shared_key "auth_tokens ''acc'' ''ref''" "world_of Map.empty" credentials_valid],
      where a = "provider_of None"]
  note stale = login_rejected [OF AuthService_login_backend_locked_session(1)
      [OF session, of credentials_valid], where a = "provider_of None"]
  note cleared = AuthService_login_backend_locked_session(2) [OF session, of credentials_valid]
  from blank norefresh shared stale cleared show ?thesis
    by (simp add: isAuthenticated_def truthy_def AuthService_login_backend_ok_store
        auth_tokens_def provider_of_def world_of_def store_session_def store_defs)
qed

text \<open>
  Claim C8, amended. When the backend call of \<^verbatim>\<open>login(credentials)\<close> is fulfilled,
  \<^verbatim>\<open>login\<close> resolves, the user is the returned user, loading has ended and the store is
  the result of \<^verbatim>\<open>setTokens\<close> with the returned pair: it returns the refresh token when
  that is non-empty, and the access token when the two storage keys differ or the refresh
  token is empty; the session is authenticated exactly when the access token is non-empty
  (or the keys coincide and the refresh token is non-empty). When the backend call is
  rejected, \<^verbatim>\<open>login\<close> rejects with the same error, the user is unchanged (so a session
  without user stays unauthenticated), loading has ended, and \<^verbatim>\<open>login\<close> itself writes
  nothing to the store; the store is the one from before the call when the Token Store was
  empty or the response was not a 401.
\<close>

theorem C8_login:
  "(\<forall>response. fst (AuthService_login e b w credentials) = Inr response \<longrightarrow>
       fst (login e b a w credentials) = Inr ()
     \<and> user (fst (snd (login e b a w credentials))) = Some (auth_user response)
     \<and> \<not> isLoading (fst (snd (login e b a w credentials)))
     \<and> localStorage (snd (snd (login e b a w credentials))) =
         setTokens e (auth_accessToken response) (Some (auth_refreshToken response))
           (localStorage (snd (AuthService_login e b w credentials)))
     \<and> (auth_refreshToken response \<noteq> [] \<longrightarrow>
          getRefreshToken e (localStorage (snd (snd (login e b a w credentials))))
            = Some (auth_refreshToken response))
     \<and> (jwt_storage_key e \<noteq> refresh_token_key e \<or> auth_refreshToken response = [] \<longrightarrow>
          getToken e (localStorage (snd (snd (login e b a w credentials))))
            = Some (auth_accessToken response))
     \<and> (isAuthenticated e (fst (snd (login e b a w credentials)))
             (snd (snd (login e b a w credentials)))
          = (auth_accessToken response \<noteq> []
             \<or> (jwt_storage_key e = refresh_token_key e \<and> auth_refreshToken response \<noteq> []))))
   \<and> (\<forall>error. fst (AuthService_login e b w credentials) = Inl error \<longrightarrow>
       fst (login e b a w credentials) = Inl error
     \<and> user (fst (snd (login e b a w credentials))) = user a
     \<and> \<not> isLoading (fst (snd (login e b a w credentials)))
     \<and> localStorage (snd (snd (login e b a w credentials))) =
         localStorage (snd (AuthService_login e b w credentials))
     \<and> (user a = None \<longrightarrow>
          \<not> isAuthenticated e (fst (snd (login e b a w credentials)))
             (snd (snd (login e b a w credentials))))
     \<and> ((getToken e (localStorage w) = None \<and> getRefreshToken e (localStorage w) = None)
          \<or> (\<forall>m resp. first_outcome e b w
                 (api_request ''post'' ''/auth/login'' (LoginData credentials)) = Failed m resp
               \<longrightarrow> \<not> is_401 resp) \<longrightarrow>
          localStorage (snd (snd (login e b a w credentials))) = localStorage w))"
proof -
  have stored: "(y \<noteq> [] \<longrightarrow> getRefreshToken e (setTokens e x (Some y) st) = Some y)
     \<and> (jwt_storage_key e \<noteq> refresh_token_key e \<or> y = [] \<longrightarrow>
          getToken e (setTokens e x (Some y) st) = Some x)" for x y st
    by (auto simp: getToken_def getRefreshToken_def setTokens_def Let_def)
  have ok: "fst (AuthService_login e b w credentials) = Inr response \<Longrightarrow>
       fst (login e b a w credentials) = Inr ()
     \<and> user (fst (snd (login e b a w credentials))) = Some (auth_user response)
     \<and> \<not> isLoading (fst (snd (login e b a w credentials)))
     \<and> localStorage (snd (snd (login e b a w credentials))) =
         setTokens e (auth_accessToken response) (Some (auth_refreshToken response))
           (localStorage (snd (AuthService_login e b w credentials)))
     \<and> (auth_refreshToken response \<noteq> [] \<longrightarrow>
          getRefreshToken e (localStorage (snd (snd (login e b a w credentials))))
            = Some (auth_refreshToken response))
     \<and> (jwt_storage_key e \<noteq> refresh_token_key e \<or> auth_refreshToken response = [] \<longrightarrow>
          getToken e (localStorage (snd (snd (login e b a w credentials))))
            = Some (auth_accessToken response))
     \<and> (isAuthenticated e (fst (snd (login e b a w credentials)))
             (snd (snd (login e b a w credentials)))
          = (auth_accessToken response \<noteq> []
             \<or> (jwt_storage_key e = refresh_token_key e \<and> auth_refreshToken response \<noteq> [])))"
    for response
    using stored
    by (simp add: login_fulfilled isAuthenticated_def truthy_getToken_setTokens_iff)
  have unchanged: "(getToken e (localStorage w) = None \<and> getRefreshToken e (localStorage w) = None)
          \<or> (\<forall>m resp. first_outcome e b w
                 (api_request ''post'' ''/auth/login'' (LoginData credentials)) = Failed m resp
               \<longrightarrow> \<not> is_401 resp)
       \<Longrightarrow> localStorage (snd (AuthService_login e b w credentials)) = localStorage w"
    by (auto simp: AuthService_login_def apiClient_store_anonymous apiClient_store_not_401)
  have failed: "fst (AuthService_login e b w credentials) = Inl error \<Longrightarrow>
       fst (login e b a w credentials) = Inl error
     \<and> user (fst (snd (login e b a w credentials))) = user a
     \<and> \<not> isLoading (fst (snd (login e b a w credentials)))
     \<and> localStorage (snd (snd (login e b a w credentials))) =
         localStorage (snd (AuthService_login e b w credentials))
     \<and> (user a = None \<longrightarrow>
          \<not> isAuthenticated e (fst (snd (login e b a w credentials)))
             (snd (snd (login e b a w credentials))))" for error
    by (simp add: login_rejected isAuthenticated_def)
  have second: "fst (login e b a w credentials) = Inl error
     \<and> user (fst (snd (login e b a w credentials))) = user a
     \<and> \<not> isLoading (fst (snd (login e b a w credentials)))
     \<and> localStorage (snd (snd (login e b a w credentials))) =
         localStorage (snd (AuthService_login e b w credentials))
     \<and> (user a = None \<longrightarrow>
          \<not> isAuthenticated e (fst (snd (login e b a w credentials)))
             (snd (snd (login e b a w credentials))))
     \<and> ((getToken e (localStorage w) = None \<and> getRefreshToken e (localStorage w) = None)
          \<or> (\<forall>m resp. first_outcome e b w
                 (api_request ''post'' ''/auth/login'' (LoginData credentials)) = Failed m resp
               \<longrightarrow> \<not> is_401 resp) \<longrightarrow>
          localStorage (snd (snd (login e b a w credentials))) = localStorage w)"
    if rejected: "fst (AuthService_login e b w credentials) = Inl error" for error
  proof -
    note f = failed [OF rejected]
    have "localStorage (snd (snd (login e b a w credentials))) = localStorage w"
      if "(getToken e (localStorage w) = None \<and> getRefreshToken e (localStorage w) = None)
          \<or> (\<forall>m resp. first_outcome e b w
                 (api_request ''post'' ''/auth/login'' (LoginData credentials)) = Failed m resp
               \<longrightarrow> \<not> is_401 resp)"
      using f unchanged [OF that] by simp
    with f show ?thesis by blast
  qed
  from ok second show ?thesis by blast
qed

theorem C8_login_witness:
  "fst (AuthService_login env_unset (backend_ok (auth_tokens ''acc'' ''ref''))
          (world_of Map.empty) credentials_valid) = Inr (auth_tokens ''acc'' ''ref'')
   \<and> getToken env_unset (localStorage (snd (snd (login env_unset
         (backend_ok (auth_tokens ''acc'' ''ref'')) (provider_of None) (world_of Map.empty)
         credentials_valid)))) = Some ''acc''
   \<and> getRefreshToken env_unset (localStorage (snd (snd (login env_unset
         (backend_ok (auth_tokens ''acc'' ''ref'')) (provider_of None) (world_of Map.empty)
         credentials_valid)))) = Some ''ref''
   \<and> isAuthenticated env_unset
        (fst (snd (login env_unset (backend_ok (auth_tokens ''acc'' ''ref'')) (provider_of None)
           (world_of Map.empty) credentials_valid)))
        (snd (snd (login env_unset (backend_ok (auth_tokens ''acc'' ''ref'')) (provider_of None)
           (world_of Map.empty) credentials_valid)))
   \<and> fst (login env_unset backend_locked (provider_of None) (world_of Map.empty)
        credentials_valid) = Inl (Js (Error ''No refresh token available''))
   \<and> localStorage (snd (snd (login env_unset backend_locked (provider_of None)
        (world_of Map.empty) credentials_valid))) = Map.empty
   \<and> fst (login env_unset backend_down (provider_of None) (world_of store_session)
        credentials_valid) = Inl (Api (toApiError ''Network Error'' None))
   \<and> localStorage (snd (snd (login env_unset backend_down (provider_of None)
        (world_of store_session) credentials_valid))) = store_session"
proof -
  have ok: "fst (AuthService_login env_unset (backend_ok (auth_tokens ''acc'' ''ref''))
          (world_of Map.empty) credentials_valid) = Inr (auth_tokens ''acc'' ''ref'')"
    by (rule AuthService_login_backend_ok)
  have locked: "fst (AuthService_login env_unset backend_locked (world_of Map.empty)
          credentials_valid) = Inl (Js (Error ''No refresh token available''))"
    by (simp add: AuthService_login_def apiClient_backend_locked_anonymous api_request_def
        world_of_def getRefreshToken_def truthy_def)
  have down: "fst (AuthService_login env_unset backend_down (world_of store_session)
          credentials_valid) = Inl (Api (toApiError ''Network Error'' None))"
    by (simp add: AuthService_login_def apiClient_backend_down)
  have empty: "getToken env_unset (localStorage (world_of Map.empty)) = None
      \<and> getRefreshToken env_unset (localStorage (world_of Map.empty)) = None"
    by (simp add: world_of_def getToken_def getRefreshToken_def)
  have not_401: "\<forall>m resp. first_outcome env_unset (backend_down :: (unit, AuthResponse) backend)
        (world_of store_session)
        (api_request ''post'' ''/auth/login'' (LoginData credentials_valid)) = Failed m resp
      \<longrightarrow> \<not> is_401 resp"
    by (simp add: first_outcome_def backend_down_def network_error_def is_401_def)
  note s = C8_login [of env_unset "backend_ok (auth_tokens ''acc'' ''ref'')"
      "world_of Map.empty" credentials_valid "provider_of None",
      THEN conjunct1, rule_format, OF ok]
  note f = C8_login [of env_unset backend_locked "world_of Map.empty" credentials_valid
      "provider_of None", THEN conjunct2, rule_format, OF locked]
  note d = C8_login [of env_unset backend_down "world_of store_session" credentials_valid
      "provider_of None", THEN conjunct2, rule_format, OF down]
  have 1: "getToken env_unset (localStorage (snd (snd (login env_unset
         (backend_ok (auth_tokens ''acc'' ''ref'')) (provider_of None) (world_of Map.empty)
         credentials_valid)))) = Some ''acc''
   \<and> getRefreshToken env_unset (localStorage (snd (snd (login env_unset
         (backend_ok (auth_tokens ''acc'' ''ref'')) (provider_of None) (world_of Map.empty)
         credentials_valid)))) = Some ''ref''
   \<and> isAuthenticated env_unset
        (fst (snd (login env_unset (backend_ok (auth_tokens ''acc'' ''ref'')) (provider_of None)
           (world_of Map.empty) credentials_valid)))
        (snd (snd (login env_unset (backend_ok (auth_tokens ''acc'' ''ref'')) (provider_of None)
           (world_of Map.empty) credentials_valid)))"
  proof -
    have fields: "auth_accessToken (auth_tokens ''acc'' ''ref'') = ''acc''"
      "auth_refreshToken (auth_tokens ''acc'' ''ref'') = ''ref''"
      by (simp_all add: auth_tokens_def)
    have filled: "''acc'' \<noteq> []" "''ref'' \<noteq> []" by simp_all
    from s keys_env_unset filled show ?thesis unfolding fields by blast
  qed
  have 2: "fst (login env_unset backend_locked (provider_of None) (world_of Map.empty)
        credentials_valid) = Inl (Js (Error ''No refresh token available''))"
    using f by simp
  from f empty
  have "localStorage (snd (snd (login env_unset backend_locked (provider_of None)
        (world_of Map.empty) credentials_valid))) = localStorage (world_of Map.empty)"
    by blast
  then have 3: "localStorage (snd (snd (login env_unset backend_locked (provider_of None)
        (world_of Map.empty) credentials_valid))) = Map.empty"
    by (simp add: world_of_def)
  have 4: "fst (login env_unset backend_down (provider_of None) (world_of store_session)
        credentials_valid) = Inl (Api (toApiError ''Network Error'' None))"
    using d by simp
  from d not_401
  have "localStorage (snd (snd (login env_unset backend_down (provider_of None)
        (world_of store_session) credentials_valid))) = localStorage (world_of store_session)"
    by blast
  then have 5: "localStorage (snd (snd (login env_unset backend_down (provider_of None)
        (world_of store_session) credentials_valid))) = store_session"
    by (simp add: world_of_def)
  from ok 1 2 3 4 5 show ?thesis by simp
qed

text \<open>
  Claim C9, as stated, fails when the profile fetch succeeds through a refresh that issued
  the empty string as access token: the user is set, but \<^verbatim>\<open>isAuthenticated\<close> reads the
  stored access token again and is false.
\<close>

theorem C9_counterexample:
  "truthy (getToken env_unset (localStorage (world_at False store_session)))
   \<and> fst (AuthService_getProfile env_unset (backend_renewing [] (user_of (Some role_editor)))
         (world_at False store_session)) = Inr (user_of (Some role_editor))
   \<and> user (fst (initializeAuth env_unset (backend_renewing [] (user_of (Some role_editor)))
         (provider_of None) (world_at False store_session)))
       = Some (user_of (Some role_editor))
   \<and> \<not> isAuthenticated env_unset
        (fst (initializeAuth env_unset (backend_renewing [] (user_of (Some role_editor)))
           (provider_of None) (world_at False store_session)))
        (snd (initializeAuth env_unset (backend_renewing [] (user_of (Some role_editor)))
           (provider_of None) (world_at False store_session)))"
proof -
  have token: "truthy (getToken env_unset (localStorage (world_at False store_session)))"
    by (simp add: world_at_def store_session_tokens truthy_def)
  have session: "getRefreshToken env_unset (localStorage (world_at False store_session))
      = Some ''r1''" "''r1'' \<noteq> []" "\<not> server (world_at False store_session)"
    by (simp_all add: world_at_def store_session_tokens)
  note fetched = AuthService_getProfile_backend_renewing [OF session,
      of "[]" "user_of (Some role_editor)"]
  note init = initializeAuth_fulfilled [OF token fetched(1), of "provider_of None"]
  from token fetched init show ?thesis
    by (simp add: isAuthenticated_def truthy_def world_at_def store_session_def store_defs)
qed

text \<open>
  Claim C9, amended. \<^verbatim>\<open>initializeAuth\<close> always ends loading. With a stored access token
  it fetches the profile. When the fetch is fulfilled the user is the fetched one, and the
  session is authenticated exactly when the store still holds a non-empty access token; it
  does whenever the refresh call made for this fetch, if there was one, issued a non-empty
  access token. When the fetch is rejected, for whatever reason, the user is \<^verbatim>\<open>null\<close>,
  both tokens are cleared and the session is not authenticated. Without a stored access
  token nothing is fetched: the world is unchanged, only loading ends, and the session is not
  authenticated.
\<close>

theorem C9_initializeAuth:
  "\<not> isLoading (fst (initializeAuth e b a w))
   \<and> (truthy (getToken e (localStorage w)) \<longrightarrow>
        (\<forall>u. fst (AuthService_getProfile e b w) = Inr u \<longrightarrow>
            user (fst (initializeAuth e b a w)) = Some u
          \<and> snd (initializeAuth e b a w) = snd (AuthService_getProfile e b w)
          \<and> (isAuthenticated e (fst (initializeAuth e b a w)) (snd (initializeAuth e b a w))
               = truthy (getToken e (localStorage (snd (AuthService_getProfile e b w)))))
          \<and> ((\<forall>m resp rt rr.
                  first_outcome e b w (api_request ''get'' ''/auth/profile'' NoData)
                    = Failed m resp \<and> is_401 resp
                  \<and> getRefreshToken e (localStorage w) = Some rt
                  \<and> refresh_outcome e b w (api_request ''get'' ''/auth/profile'' NoData) rt
                    = Fulfilled rr
                  \<longrightarrow> accessToken (resp_data rr) \<noteq> []) \<longrightarrow>
               isAuthenticated e (fst (initializeAuth e b a w)) (snd (initializeAuth e b a w))))
      \<and> (\<forall>error. fst (AuthService_getProfile e b w) = Inl error \<longrightarrow>
            user (fst (initializeAuth e b a w)) = None
          \<and> getToken e (localStorage (snd (initializeAuth e b a w))) = None
          \<and> getRefreshToken e (localStorage (snd (initializeAuth e b a w))) = None
          \<and> \<not> isAuthenticated e (fst (initializeAuth e b a w)) (snd (initializeAuth e b a w))))
   \<and> (\<not> truthy (getToken e (localStorage w)) \<longrightarrow>
        fst (initializeAuth e b a w) = a\<lparr>isLoading := False\<rparr>
      \<and> snd (initializeAuth e b a w) = w
      \<and> \<not> isAuthenticated e (fst (initializeAuth e b a w)) (snd (initializeAuth e b a w)))"
proof -
  have loading: "\<not> isLoading (fst (initializeAuth e b a w))"
    by (simp add: initializeAuth_def Let_def split: sum.splits)
  have ok: "user (fst (initializeAuth e b a w)) = Some u
          \<and> snd (initializeAuth e b a w) = snd (AuthService_getProfile e b w)
          \<and> (isAuthenticated e (fst (initializeAuth e b a w)) (snd (initializeAuth e b a w))
               = truthy (getToken e (localStorage (snd (AuthService_getProfile e b w)))))"
    if "truthy (getToken e (localStorage w))" and "fst (AuthService_getProfile e b w) = Inr u"
    for u
    using that by (simp add: initializeAuth_fulfilled isAuthenticated_def)
  have kept: "truthy (getToken e (localStorage (snd (AuthService_getProfile e b w))))"
    if "truthy (getToken e (localStorage w))" and "fst (AuthService_getProfile e b w) = Inr u"
      and "\<forall>m resp rt rr.
                  first_outcome e b w (api_request ''get'' ''/auth/profile'' NoData)
                    = Failed m resp \<and> is_401 resp
                  \<and> getRefreshToken e (localStorage w) = Some rt
                  \<and> refresh_outcome e b w (api_request ''get'' ''/auth/profile'' NoData) rt
                    = Fulfilled rr
                  \<longrightarrow> accessToken (resp_data rr) \<noteq> []"
    for u
    using that by (auto simp: AuthService_getProfile_def intro: apiClient_token_kept_here)
  have failed: "user (fst (initializeAuth e b a w)) = None
          \<and> getToken e (localStorage (snd (initializeAuth e b a w))) = None
          \<and> getRefreshToken e (localStorage (snd (initializeAuth e b a w))) = None
          \<and> \<not> isAuthenticated e (fst (initializeAuth e b a w)) (snd (initializeAuth e b a w))"
    if "truthy (getToken e (localStorage w))" and "fst (AuthService_getProfile e b w) = Inl error"
    for error
    using that
    by (simp add: initializeAuth_def Let_def getToken_def getRefreshToken_def clearTokens_def
        isAuthenticated_def)
  have none: "fst (initializeAuth e b a w) = a\<lparr>isLoading := False\<rparr>
      \<and> snd (initializeAuth e b a w) = w
      \<and> \<not> isAuthenticated e (fst (initializeAuth e b a w)) (snd (initializeAuth e b a w))"
    if "\<not> truthy (getToken e (localStorage w))"
    using that by (simp add: initializeAuth_def isAuthenticated_def)
  have success: "user (fst (initializeAuth e b a w)) = Some u
          \<and> snd (initializeAuth e b a w) = snd (AuthService_getProfile e b w)
          \<and> (isAuthenticated e (fst (initializeAuth e b a w)) (snd (initializeAuth e b a w))
               = truthy (getToken e (localStorage (snd (AuthService_getProfile e b w)))))
          \<and> ((\<forall>m resp rt rr.
                  first_outcome e b w (api_request ''get'' ''/auth/profile'' NoData)
                    = Failed m resp \<and> is_401 resp
                  \<and> getRefreshToken e (localStorage w) = Some rt
                  \<and> refresh_outcome e b w (api_request ''get'' ''/auth/profile'' NoData) rt
                    = Fulfilled rr
                  \<longrightarrow> accessToken (resp_data rr) \<noteq> []) \<longrightarrow>
               isAuthenticated e (fst (initializeAuth e b a w)) (snd (initializeAuth e b a w)))"
    if "truthy (getToken e (localStorage w))" and "fst (AuthService_getProfile e b w) = Inr u"
    for u
    using ok [OF that] kept [OF that] by blast
  from loading success failed none show ?thesis by blast
qed

theorem C9_initializeAuth_witness:
  "truthy (getToken env_unset (localStorage (world_at False store_session)))
   \<and> fst (AuthService_getProfile env_unset
         (backend_renewing ''new'' (user_of (Some role_editor)))
         (world_at False store_session)) = Inr (user_of (Some role_editor))
   \<and> refresh_outcome env_unset (backend_renewing ''new'' (user_of (Some role_editor)))
        (world_at False store_session) (api_request ''get'' ''/auth/profile'' NoData) ''r1''
       = Fulfilled \<lparr>resp_status = 200,
                    resp_data = \<lparr>accessToken = ''new'', refreshToken = None\<rparr>\<rparr>
   \<and> isAuthenticated env_unset
        (fst (initializeAuth env_unset (backend_renewing ''new'' (user_of (Some role_editor)))
           (provider_of None) (world_at False store_session)))
        (snd (initializeAuth env_unset (backend_renewing ''new'' (user_of (Some role_editor)))
           (provider_of None) (world_at False store_session)))
   \<and> fst (AuthService_getProfile env_unset backend_locked (world_of store_session))
       = Inl (Raw ''Request failed with status code 401''
               (Some \<lparr>err_status = 401, err_data = None\<rparr>))
   \<and> user (fst (initializeAuth env_unset backend_locked (provider_of None)
         (world_of store_session))) = None
   \<and> getToken env_unset (localStorage (snd (initializeAuth env_unset backend_locked
         (provider_of None) (world_of store_session)))) = None
   \<and> getRefreshToken env_unset (localStorage (snd (initializeAuth env_unset backend_locked
         (provider_of None) (world_of store_session)))) = None
   \<and> \<not> isLoading (fst (initializeAuth env_unset backend_locked (provider_of None)
         (world_of store_session)))
   \<and> \<not> truthy (getToken env_unset (localStorage (world_of Map.empty)))
   \<and> snd (initializeAuth env_unset backend_locked (provider_of None) (world_of Map.empty))
       = world_of Map.empty"
proof -
  have token: "truthy (getToken env_unset (localStorage (world_at False store_session)))"
    by (simp add: world_at_def store_session_tokens truthy_def)
  have session: "getRefreshToken env_unset (localStorage (world_at False store_session))
      = Some ''r1''" "''r1'' \<noteq> []" "\<not> server (world_at False store_session)"
    by (simp_all add: world_at_def store_session_tokens)
  have fetched: "fst (AuthService_getProfile env_unset
         (backend_renewing ''new'' (user_of (Some role_editor)))
         (world_at False store_session)) = Inr (user_of (Some role_editor))"
    by (rule AuthService_getProfile_backend_renewing(1) [OF session])
  have granted: "refresh_outcome env_unset (backend_renewing ''new'' (user_of (Some role_editor)))
        (world_at False store_session) (api_request ''get'' ''/auth/profile'' NoData) ''r1''
       = Fulfilled \<lparr>resp_status = 200,
                    resp_data = \<lparr>accessToken = ''new'', refreshToken = None\<rparr>\<rparr>"
    by (simp add: refresh_outcome_def backend_renewing_def)
  have issued: "\<forall>m resp rt rr.
      first_outcome env_unset (backend_renewing ''new'' (user_of (Some role_editor)))
        (world_at False store_session) (api_request ''get'' ''/auth/profile'' NoData)
        = Failed m resp \<and> is_401 resp
      \<and> getRefreshToken env_unset (localStorage (world_at False store_session)) = Some rt
      \<and> refresh_outcome env_unset (backend_renewing ''new'' (user_of (Some role_editor)))
          (world_at False store_session) (api_request ''get'' ''/auth/profile'' NoData) rt
          = Fulfilled rr
      \<longrightarrow> accessToken (resp_data rr) \<noteq> []"
    by (auto simp: refresh_outcome_def backend_renewing_def)
  have stored: "truthy (getToken env_unset (localStorage (world_of store_session)))"
    by (simp add: world_of_def store_session_tokens truthy_def)
  have failed: "fst (AuthService_getProfile env_unset backend_locked (world_of store_session))
       = Inl (Raw ''Request failed with status code 401''
               (Some \<lparr>err_status = 401, err_data = None\<rparr>))"
    by (simp add: AuthService_getProfile_def
        apiClient_backend_locked_session [where rt = "''r1''"] api_request_def world_of_def
        store_session_tokens)
  have absent: "\<not> truthy (getToken env_unset (localStorage (world_of Map.empty)))"
    by (simp add: world_of_def getToken_def truthy_def)
  note renewed = C9_initializeAuth [of env_unset
      "backend_renewing ''new'' (user_of (Some role_editor))" "provider_of None"
      "world_at False store_session"]
  note locked = C9_initializeAuth [of env_unset backend_locked "provider_of None"
      "world_of store_session"]
  note fresh = C9_initializeAuth [of env_unset backend_locked "provider_of None"
      "world_of Map.empty"]
  from renewed token fetched issued
  have 1: "isAuthenticated env_unset
        (fst (initializeAuth env_unset (backend_renewing ''new'' (user_of (Some role_editor)))
           (provider_of None) (world_at False store_session)))
        (snd (initializeAuth env_unset (backend_renewing ''new'' (user_of (Some role_editor)))
           (provider_of None) (world_at False store_session)))"
    by blast
  from locked stored failed
  have 2: "user (fst (initializeAuth env_unset backend_locked (provider_of None)
         (world_of store_session))) = None
   \<and> getToken env_unset (localStorage (snd (initializeAuth env_unset backend_locked
         (provider_of None) (world_of store_session)))) = None
   \<and> getRefreshToken env_unset (localStorage (snd (initializeAuth env_unset backend_locked
         (provider_of None) (world_of store_session)))) = None
   \<and> \<not> isLoading (fst (initializeAuth env_unset backend_locked (provider_of None)
         (world_of store_session)))"
    by blast
  from fresh absent
  have 3: "snd (initializeAuth env_unset backend_locked (provider_of None) (world_of Map.empty))
       = world_of Map.empty"
    by blast
  from token fetched granted failed absent 1 2 3 show ?thesis by blast
qed

end
